theory Spec2Isabelle
  imports Complex_Main
begin

text \<open>
  A model of the notebook \<^verbatim>\<open>Section7_6-Bayesian-Neural-Networks.ipynb\<close>: the array
  expressions of its cells, the network and the model it declares, the compiled sampling
  function, and the run of its cells, statement by statement, over a library whose calls
  are parameters.
\<close>

section \<open>Arrays\<close>

text \<open>
  The notebook computes on numpy arrays and Theano tensors. An array is its shape and its
  elements in row-major order, as numpy stores it. The elements of the float arrays are
  modelled as real numbers: rounding of \<^verbatim>\<open>floatX\<close> arithmetic is outside the model.
  An array is well formed when it holds as many elements as its shape says.
\<close>

record 'a ndarray =
  shape :: "nat list"
  data :: "'a list"

definition well_formed :: "'a ndarray \<Rightarrow> bool" where
  "well_formed a = (length (data a) = prod_list (shape a))"

text \<open>
  Errors are values. \<open>ValueError\<close> is a shape mismatch or an impossible reshape,
  \<open>IndexError\<close> an index out of range or a boolean mask of the wrong length,
  \<open>AxisError\<close> a reduction along an axis the array does not have, \<open>TypeError\<close> an
  input of the wrong rank to the compiled Theano function, and \<open>Exception\<close> any other
  exception, by the name of its class. \<open>NotModelled\<close> is not an exception of the
  program: it marks what is left out of the model, which are operand ranks and shapes
  that the notebook never produces and the continuation of a run after an error that a
  context exit has suppressed.
\<close>

datatype error =
  ValueError | IndexError | AxisError | TypeError | Exception string | NotModelled

definition and_then :: "error + 'a \<Rightarrow> ('a \<Rightarrow> error + 'b) \<Rightarrow> error + 'b" where
  "and_then r f = (case r of Inl e \<Rightarrow> Inl e | Inr v \<Rightarrow> f v)"

text \<open>Results in order; the first error is the error of the whole.\<close>

fun collect :: "(error + 'a) list \<Rightarrow> error + 'a list" where
  "collect [] = Inr []"
| "collect (r # rs) = and_then r (\<lambda>v. and_then (collect rs) (\<lambda>vs. Inr (v # vs)))"

definition elementwise :: "('a \<Rightarrow> 'b) \<Rightarrow> 'a ndarray \<Rightarrow> 'b ndarray" where
  "elementwise f a = \<lparr>shape = shape a, data = map f (data a)\<rparr>"

text \<open>\<^verbatim>\<open>a.shape[i]\<close>: indexing the shape tuple out of range raises.\<close>

definition dim :: "'a ndarray \<Rightarrow> nat \<Rightarrow> error + nat" where
  "dim a i = (if i < length (shape a) then Inr (shape a ! i) else Inl IndexError)"

text \<open>
  \<^verbatim>\<open>a.reshape(dims)\<close>. One dimension may be \<open>-1\<close> and is then inferred from the
  number of elements; the element count must be kept.
\<close>

definition reshape :: "'a ndarray \<Rightarrow> int list \<Rightarrow> error + 'a ndarray" where
  "reshape a dims =
     (let total = prod_list (shape a);
          known = prod_list (map nat (filter (\<lambda>d. d \<noteq> - 1) dims))
      in if \<exists>d\<in>set dims. d < - 1 then Inl ValueError
         else if 1 < length (filter (\<lambda>d. d = - 1) dims) then Inl ValueError
         else if - 1 \<in> set dims then
           (if known = 0 \<or> total mod known \<noteq> 0 then Inl ValueError
            else Inr (a\<lparr>shape := map (\<lambda>d. if d = - 1 then total div known else nat d) dims\<rparr>))
         else if known = total then Inr (a\<lparr>shape := map nat dims\<rparr>)
         else Inl ValueError)"

text \<open>
  Row-major positions: \<open>unravel s k\<close> is the multi-index of flat position \<open>k\<close> in an
  array of shape \<open>s\<close>, \<open>ravel s idx\<close> the flat position of a multi-index.
\<close>

fun unravel :: "nat list \<Rightarrow> nat \<Rightarrow> nat list" where
  "unravel [] k = []"
| "unravel (d # ds) k = (k div prod_list ds) # unravel ds (k mod prod_list ds)"

fun ravel :: "nat list \<Rightarrow> nat list \<Rightarrow> nat" where
  "ravel (d # ds) (i # idx) = i * prod_list ds + ravel ds idx"
| "ravel _ _ = 0"

text \<open>\<^verbatim>\<open>a.T\<close>: the axes in reverse order.\<close>

definition T :: "'a ndarray \<Rightarrow> 'a ndarray" where
  "T a = \<lparr>shape = rev (shape a),
           data = map (\<lambda>k. data a ! ravel (shape a) (rev (unravel (rev (shape a)) k)))
                    [0..<prod_list (shape a)]\<rparr>"

text \<open>\<^verbatim>\<open>a[i]\<close>: the \<open>i\<close>-th item along the first axis.\<close>

definition item :: "'a ndarray \<Rightarrow> nat \<Rightarrow> error + 'a ndarray" where
  "item a i =
     (case shape a of
        [] \<Rightarrow> Inl IndexError
      | r # rest \<Rightarrow>
          if i < r then
            Inr \<lparr>shape = rest, data = take (prod_list rest) (drop (i * prod_list rest) (data a))\<rparr>
          else Inl IndexError)"

text \<open>\<^verbatim>\<open>a[:k]\<close>: the first \<open>k\<close> items along the first axis, or all if there are fewer.\<close>

definition first_items :: "'a ndarray \<Rightarrow> nat \<Rightarrow> error + 'a ndarray" where
  "first_items a k =
     (case shape a of
        [] \<Rightarrow> Inl IndexError
      | r # rest \<Rightarrow>
          Inr \<lparr>shape = min k r # rest, data = take (min k r * prod_list rest) (data a)\<rparr>)"

text \<open>
  \<^verbatim>\<open>a.mean(axis=0)\<close> and \<^verbatim>\<open>a.std(axis=0)\<close>: the first axis is the outermost one
  of the row-major layout, so entry \<open>j\<close> of the result reduces the elements at positions
  \<open>i * size + j\<close>, where \<open>size\<close> is the number of elements of one item. With no item
  along the first axis numpy fills the result with the float \<^verbatim>\<open>nan\<close>, which the reals
  do not have; the notebook reduces 500 samples, and that case is left out.
\<close>

definition column :: "real ndarray \<Rightarrow> nat \<Rightarrow> nat \<Rightarrow> nat \<Rightarrow> real list" where
  "column a r sz j = map (\<lambda>i. data a ! (i * sz + j)) [0..<r]"

definition mean_axis0 :: "real ndarray \<Rightarrow> error + real ndarray" where
  "mean_axis0 a =
     (case shape a of
        [] \<Rightarrow> Inl AxisError
      | r # rest \<Rightarrow>
          if r = 0 \<and> 0 < prod_list rest then Inl NotModelled
          else Inr \<lparr>shape = rest,
                    data = map (\<lambda>j. sum_list (column a r (prod_list rest) j) / real r)
                             [0..<prod_list rest]\<rparr>)"

definition std_axis0 :: "real ndarray \<Rightarrow> error + real ndarray" where
  "std_axis0 a =
     (case shape a of
        [] \<Rightarrow> Inl AxisError
      | r # rest \<Rightarrow>
          if r = 0 \<and> 0 < prod_list rest then Inl NotModelled
          else Inr \<lparr>shape = rest,
                    data = map (\<lambda>j. let c = column a r (prod_list rest) j;
                                       m = sum_list c / real r
                                   in sqrt (sum_list (map (\<lambda>v. \<bar>v - m\<bar> ^ 2) c) / real r))
                             [0..<prod_list rest]\<rparr>)"

text \<open>
  \<^verbatim>\<open>a.mean()\<close>: the mean of all elements. For no elements numpy returns the float
  \<^verbatim>\<open>nan\<close> (with a warning, not an exception), which is \<open>None\<close> here.
\<close>

definition mean :: "real ndarray \<Rightarrow> real option" where
  "mean a = (if data a = [] then None
             else Some (sum_list (data a) / real (length (data a))))"

text \<open>
  \<^verbatim>\<open>a == b\<close> on arrays of one shape compares element by element. Unequal shapes
  (broadcasting) do not occur in the notebook and are left out.
\<close>

definition equal_arrays :: "('a \<Rightarrow> 'b \<Rightarrow> bool) \<Rightarrow> 'a ndarray \<Rightarrow> 'b ndarray \<Rightarrow> error + bool ndarray" where
  "equal_arrays eq a b =
     (if shape a = shape b then Inr \<lparr>shape = shape a, data = map (\<lambda>(u, v). eq u v) (zip (data a) (data b))\<rparr>
      else Inl NotModelled)"

text \<open>
  \<^verbatim>\<open>a[mask, j]\<close> on a matrix: column \<open>j\<close> of the rows that the boolean mask selects.
  The mask must be as long as the matrix has rows.
\<close>

definition mask_column :: "'a ndarray \<Rightarrow> bool ndarray \<Rightarrow> nat \<Rightarrow> error + 'a ndarray" where
  "mask_column a m j =
     (case (shape a, shape m) of
        ([r, c], [r']) \<Rightarrow>
          if r = r' \<and> j < c then
            (let rows = filter (\<lambda>i. data m ! i) [0..<r]
             in Inr \<lparr>shape = [length rows], data = map (\<lambda>i. data a ! (i * c + j)) rows\<rparr>)
          else Inl IndexError
      | _ \<Rightarrow> Inl NotModelled)"

text \<open>
  \<^verbatim>\<open>np.mgrid[a1:b1:n1*1j, a2:b2:n2*1j]\<close>: with an imaginary step the slice is \<open>n\<close>
  evenly spaced points from \<open>a\<close> to \<open>b\<close>, both included. The result has shape
  \<open>(2, n1, n2)\<close>: item 0 varies along the rows, item 1 along the columns.
\<close>

definition linspace :: "real \<Rightarrow> real \<Rightarrow> nat \<Rightarrow> real list" where
  "linspace a b n = map (\<lambda>i. a + real i * ((b - a) / real (n - 1))) [0..<n]"

definition mgrid :: "real \<Rightarrow> real \<Rightarrow> nat \<Rightarrow> real \<Rightarrow> real \<Rightarrow> nat \<Rightarrow> real ndarray" where
  "mgrid a1 b1 n1 a2 b2 n2 =
     \<lparr>shape = [2, n1, n2],
      data = concat (map (replicate n2) (linspace a1 b1 n1)) @ concat (replicate n1 (linspace a2 b2 n2))\<rparr>"

definition ones :: "nat \<Rightarrow> int ndarray" where
  "ones n = \<lparr>shape = [n], data = replicate n 1\<rparr>"

section \<open>The network\<close>

text \<open>
  \<^verbatim>\<open>pm.math.dot\<close> on operands of rank 1 or 2: the sum of products over the last axis of
  the first operand and the first axis of the second. The inner dimensions must agree.
\<close>

definition dot :: "real ndarray \<Rightarrow> real ndarray \<Rightarrow> error + real ndarray" where
  "dot a b =
     (case (shape a, shape b) of
        ([m, k], [k', n]) \<Rightarrow>
          if k = k' then
            Inr \<lparr>shape = [m, n],
                 data = concat (map (\<lambda>i. map (\<lambda>j. \<Sum>l\<leftarrow>[0..<k]. data a ! (i * k + l) * data b ! (l * n + j))
                                       [0..<n]) [0..<m])\<rparr>
          else Inl ValueError
      | ([m, k], [k']) \<Rightarrow>
          if k = k' then
            Inr \<lparr>shape = [m],
                 data = map (\<lambda>i. \<Sum>l\<leftarrow>[0..<k]. data a ! (i * k + l) * data b ! l) [0..<m]\<rparr>
          else Inl ValueError
      | ([k], [k', n]) \<Rightarrow>
          if k = k' then
            Inr \<lparr>shape = [n],
                 data = map (\<lambda>j. \<Sum>l\<leftarrow>[0..<k]. data a ! l * data b ! (l * n + j)) [0..<n]\<rparr>
          else Inl ValueError
      | ([k], [k']) \<Rightarrow>
          if k = k' then
            Inr \<lparr>shape = [], data = [\<Sum>l\<leftarrow>[0..<k]. data a ! l * data b ! l]\<rparr>
          else Inl ValueError
      | _ \<Rightarrow> Inl NotModelled)"

text \<open>
  The logistic function and \<open>tanh\<close> are the functions on the reals. Their
  \<^verbatim>\<open>floatX\<close> implementations round, and for arguments of large magnitude they
  return exactly \<open>1\<close>, \<open>-1\<close> or \<open>0\<close>, values that the real functions do not reach:
  whether an output is strictly inside its range is not a question that this model
  answers.
\<close>

definition sigmoid :: "real \<Rightarrow> real" where
  "sigmoid v = 1 / (1 + exp (- v))"

text \<open>An assignment of values to the three weight variables of the model.\<close>

record weights =
  w_in_1 :: "real ndarray"
  w_1_2 :: "real ndarray"
  w_2_out :: "real ndarray"

text \<open>
  The three layers, as the model block builds them from its input \<open>x\<close> (\<^verbatim>\<open>ann_input\<close>,
  or the matrix that replaces it in \<^verbatim>\<open>sample_node\<close>).
\<close>

definition act_1 :: "weights \<Rightarrow> real ndarray \<Rightarrow> error + real ndarray" where
  "act_1 w x = and_then (dot x (w_in_1 w)) (\<lambda>z. Inr (elementwise tanh z))"

definition act_2 :: "weights \<Rightarrow> real ndarray \<Rightarrow> error + real ndarray" where
  "act_2 w x =
     and_then (act_1 w x) (\<lambda>a1.
     and_then (dot a1 (w_1_2 w)) (\<lambda>z. Inr (elementwise tanh z)))"

definition act_out :: "weights \<Rightarrow> real ndarray \<Rightarrow> error + real ndarray" where
  "act_out w x =
     and_then (act_2 w x) (\<lambda>a2.
     and_then (dot a2 (w_2_out w)) (\<lambda>z. Inr (elementwise sigmoid z)))"

section \<open>The model\<close>

text \<open>
  The model block declares three weight variables with a prior, a shape and a starting
  value each, and one observed variable \<open>out\<close> whose Bernoulli parameter is the output
  layer. \<open>X.shape[1]\<close> and \<open>y_train.shape[0]\<close> are read from the arrays.
\<close>

definition n_hidden :: nat where
  "n_hidden = 5"

datatype distribution =
    Normal real real
  | Bernoulli "weights \<Rightarrow> real ndarray \<Rightarrow> error + real ndarray"

record random_variable =
  name :: string
  distribution :: distribution
  rv_shape :: "nat list option"
  testval :: "real ndarray option"
  observed :: "real ndarray option"
  total_size :: "nat option"

record model =
  free_RVs :: "random_variable list"
  observed_RVs :: "random_variable list"

definition neural_network ::
  "real ndarray \<Rightarrow> real ndarray \<Rightarrow> real ndarray \<Rightarrow> real ndarray \<Rightarrow> real ndarray \<Rightarrow> real ndarray
     \<Rightarrow> error + model" where
  "neural_network X_scaled y_train ann_output init_1 init_2 init_out =
     and_then (dim X_scaled 1) (\<lambda>n_in.
     and_then (dim y_train 0) (\<lambda>n_train.
     Inr \<lparr>free_RVs =
            [\<lparr>name = ''w_in_1'', distribution = Normal 0 1, rv_shape = Some [n_in, n_hidden],
              testval = Some init_1, observed = None, total_size = None\<rparr>,
             \<lparr>name = ''w_1_2'', distribution = Normal 0 1, rv_shape = Some [n_hidden, n_hidden],
              testval = Some init_2, observed = None, total_size = None\<rparr>,
             \<lparr>name = ''w_2_out'', distribution = Normal 0 1, rv_shape = Some [n_hidden],
              testval = Some init_out, observed = None, total_size = None\<rparr>],
          observed_RVs =
            [\<lparr>name = ''out'', distribution = Bernoulli act_out, rv_shape = None,
              testval = None, observed = Some ann_output, total_size = Some n_train\<rparr>]\<rparr>))"

text \<open>Values for the weight variables that have the declared shapes.\<close>

definition weights_shaped :: "nat \<Rightarrow> weights \<Rightarrow> bool" where
  "weights_shaped n_in w =
     (shape (w_in_1 w) = [n_in, n_hidden] \<and> shape (w_1_2 w) = [n_hidden, n_hidden]
      \<and> shape (w_2_out w) = [n_hidden])"

section \<open>Sampling from the fitted approximation\<close>

text \<open>
  The fitting routine is the library's. Of the approximation it returns, the notebook uses
  the weight samples that its random generator yields: \<open>draws\<close> is the sequence of these
  samples and \<open>consumed\<close> the number already taken, so that drawing advances the
  generator.

  \<open>sample_proba\<close> is the compiled function of the notebook: the Bernoulli parameter of
  \<open>out\<close>, which is \<open>act_out\<close>, with \<^verbatim>\<open>ann_input\<close> replaced by the matrix \<open>x\<close> and the
  weights replaced by \<open>n\<close> samples. Row \<open>i\<close> of the result is the output for sample \<open>i\<close>.
  The input must be a matrix. With \<open>n = 0\<close> the model gives the empty result.
\<close>

record approximation =
  draws :: "nat \<Rightarrow> weights"
  consumed :: nat

definition sample_proba ::
  "approximation \<Rightarrow> real ndarray \<Rightarrow> nat \<Rightarrow> error + real ndarray \<times> approximation" where
  "sample_proba approx x n =
     (case shape x of
        [rows, cols] \<Rightarrow>
          and_then (collect (map (\<lambda>i. act_out (draws approx (consumed approx + i)) x) [0..<n])) (\<lambda>ps.
          Inr (\<lparr>shape = [n, rows], data = concat (map data ps)\<rparr>,
               approx\<lparr>consumed := consumed approx + n\<rparr>))
      | _ \<Rightarrow> Inl TypeError)"

section \<open>The cells that predict and score\<close>

text \<open>\<^verbatim>\<open>pred = sample_proba(X_test, 500).mean(0) > 0.5\<close>\<close>

definition predict :: "approximation \<Rightarrow> real ndarray \<Rightarrow> error + bool ndarray \<times> approximation" where
  "predict approx X_test =
     and_then (sample_proba approx X_test 500) (\<lambda>(probs, approx').
     and_then (mean_axis0 probs) (\<lambda>m.
     Inr (elementwise (\<lambda>v. 1 / 2 < v) m, approx')))"

text \<open>
  \<^verbatim>\<open>(y_test == pred).mean() * 100\<close>, the number that the accuracy cell formats (with one
  decimal) and prints. A float label equals a boolean prediction when it is 1 for
  \<open>True\<close> and 0 for \<open>False\<close>; in the mean, \<open>True\<close> counts 1 and \<open>False\<close> counts 0.
  The result is \<open>None\<close> (\<^verbatim>\<open>nan\<close>) when there is no test row.
\<close>

definition accuracy :: "real ndarray \<Rightarrow> bool ndarray \<Rightarrow> error + real option" where
  "accuracy y_test pred =
     and_then (equal_arrays (\<lambda>v b. v = of_bool b) y_test pred) (\<lambda>hits.
     Inr (map_option (\<lambda>m. m * 100) (mean (elementwise of_bool hits))))"

text \<open>The two arguments of a scatter plot: \<^verbatim>\<open>a[mask, 0]\<close> and \<^verbatim>\<open>a[mask, 1]\<close>.\<close>

definition scatter_points :: "real ndarray \<Rightarrow> bool ndarray \<Rightarrow> error + real ndarray \<times> real ndarray" where
  "scatter_points a m =
     and_then (mask_column a m 0) (\<lambda>xs.
     and_then (mask_column a m 1) (\<lambda>ys.
     Inr (xs, ys)))"

section \<open>The cells that evaluate the grid\<close>

text \<open>
  \<^verbatim>\<open>grid = pm.floatX(np.mgrid[-3:3:100j,-3:3:100j])\<close>,
  \<^verbatim>\<open>grid_2d = grid.reshape(2, -1).T\<close> and
  \<^verbatim>\<open>dummy_out = np.ones(grid.shape[1], dtype=np.int8)\<close>.
\<close>

definition grid_cell :: "error + real ndarray \<times> real ndarray \<times> int ndarray" where
  "grid_cell =
     (let grid = mgrid (- 3) 3 100 (- 3) 3 100
      in and_then (reshape grid [2, - 1]) (\<lambda>flat.
         and_then (dim grid 1) (\<lambda>n.
         Inr (grid, T flat, ones n))))"

text \<open>
  The arguments of a contour plot: \<^verbatim>\<open>grid[0]\<close>, \<^verbatim>\<open>grid[1]\<close> and the surface
  \<^verbatim>\<open>ppc.mean(axis=0).reshape(100, 100)\<close>, or the same with \<^verbatim>\<open>std\<close>.
\<close>

definition contour_arguments ::
  "(real ndarray \<Rightarrow> error + real ndarray) \<Rightarrow> real ndarray \<Rightarrow> real ndarray
     \<Rightarrow> error + real ndarray \<times> real ndarray \<times> real ndarray" where
  "contour_arguments reduce grid ppc =
     and_then (item grid 0) (\<lambda>gx.
     and_then (item grid 1) (\<lambda>gy.
     and_then (reduce ppc) (\<lambda>s.
     and_then (reshape s [100, 100]) (\<lambda>z.
     Inr (gx, gy, z)))))"

section \<open>The notebook as a sequence of operations\<close>

text \<open>
  The cells run in order, and each cell runs its statements in order. An operation is
  either a call whose result is produced inside a library or an array computation
  modelled above. A run threads the state of the world outside the notebook's variables
  (random generators, figures, printed output) and keeps a log: one entry for each
  operation executed, with its name and the error it raised, if any. \<open>then_op\<close> is
  the sequencing of two statements: when the first raises, the second is not run and the
  error is the result.
\<close>

datatype kind = Library | Array

type_synonym log = "(kind \<times> string \<times> error option) list"

type_synonym ('a, 'w) op = "'w \<times> log \<Rightarrow> (error + 'a) \<times> 'w \<times> log"

definition outcome :: "error + 'a \<Rightarrow> error option" where
  "outcome r = (case r of Inl e \<Rightarrow> Some e | Inr v \<Rightarrow> None)"

definition library_call :: "string \<Rightarrow> ('w \<Rightarrow> (error + 'a) \<times> 'w) \<Rightarrow> ('a, 'w) op" where
  "library_call what f = (\<lambda>(w, l). case f w of (r, w') \<Rightarrow> (r, w', l @ [(Library, what, outcome r)]))"

definition array_op :: "string \<Rightarrow> error + 'a \<Rightarrow> ('a, 'w) op" where
  "array_op what r = (\<lambda>(w, l). (r, w, l @ [(Array, what, outcome r)]))"

definition then_op :: "('a, 'w) op \<Rightarrow> ('a \<Rightarrow> ('b, 'w) op) \<Rightarrow> ('b, 'w) op" where
  "then_op m f = (\<lambda>s. case m s of (Inl e, s') \<Rightarrow> (Inl e, s') | (Inr v, s') \<Rightarrow> f v s')"

definition done_op :: "'a \<Rightarrow> ('a, 'w) op" where
  "done_op v = (\<lambda>s. (Inr v, s))"

text \<open>
  The library calls are parameters. A call takes the world and returns a value or an
  error, and the new world. \<open>register\<close> is the declaration of a random variable in the
  model that is open (\<^verbatim>\<open>pm.Normal\<close>, \<^verbatim>\<open>pm.Bernoulli\<close>): the library checks the
  declaration and may raise, for instance when the starting value has not the declared
  shape. \<open>exit_context\<close> is the exit of a model context, which a \<^verbatim>\<open>with\<close> statement
  calls when its block is left: with \<open>None\<close> after a block that completed, with the
  error after a block that raised. It returns whether the error is to be suppressed, or
  raises itself. \<open>plot\<close> is a drawing call with array arguments, \<open>other\<close> any call
  whose result plays no part in the arrays (imports, casts, figure and axis set-up,
  entering a context, the construction and compilation of the Theano graph).
\<close>

record 'w library =
  make_moons :: "real \<Rightarrow> nat \<Rightarrow> 'w \<Rightarrow> (error + real ndarray \<times> real ndarray) \<times> 'w"
  scale :: "real ndarray \<Rightarrow> 'w \<Rightarrow> (error + real ndarray) \<times> 'w"
  train_test_split ::
    "real ndarray \<Rightarrow> real ndarray \<Rightarrow> real
       \<Rightarrow> 'w \<Rightarrow> (error + real ndarray \<times> real ndarray \<times> real ndarray \<times> real ndarray) \<times> 'w"
  randn :: "nat list \<Rightarrow> 'w \<Rightarrow> (error + real ndarray) \<times> 'w"
  register :: "random_variable \<Rightarrow> 'w \<Rightarrow> (error + unit) \<times> 'w"
  exit_context :: "error option \<Rightarrow> 'w \<Rightarrow> (error + bool) \<times> 'w"
  fit :: "model \<Rightarrow> nat \<Rightarrow> 'w \<Rightarrow> (error + approximation) \<times> 'w"
  sample :: "approximation \<Rightarrow> nat \<Rightarrow> 'w \<Rightarrow> (error + approximation) \<times> 'w"
  plot :: "string \<Rightarrow> real ndarray list \<Rightarrow> 'w \<Rightarrow> (error + unit) \<times> 'w"
  print :: "real option \<Rightarrow> 'w \<Rightarrow> (error + unit) \<times> 'w"
  other :: "string \<Rightarrow> 'w \<Rightarrow> (error + unit) \<times> 'w"

definition call_other :: "'w library \<Rightarrow> string \<Rightarrow> (unit, 'w) op" where
  "call_other lib what = library_call what (other lib what)"

definition call_plot :: "'w library \<Rightarrow> string \<Rightarrow> real ndarray list \<Rightarrow> (unit, 'w) op" where
  "call_plot lib what args = library_call what (plot lib what args)"

text \<open>
  \<^verbatim>\<open>with context: block\<close>. The context is entered and the block runs. When the block
  completes, the exit is called with \<open>None\<close>; what it returns is ignored, and an error it
  raises is the error of the statement. When the block raises \<open>e\<close>, the exit is called
  with \<open>e\<close>: an error it raises replaces \<open>e\<close>; when it returns false, \<open>e\<close> is raised again;
  when it returns true, \<open>e\<close> is suppressed and the run goes on after the statement with
  the variables that the block had bound before it raised. This last case is left out
  of the model (\<open>NotModelled\<close>).
\<close>

definition with_context :: "'w library \<Rightarrow> ('a, 'w) op \<Rightarrow> ('a, 'w) op" where
  "with_context lib block =
     then_op (call_other lib ''__enter__'') (\<lambda>_ s.
       case block s of
         (Inr v, s') \<Rightarrow>
           then_op (library_call ''__exit__'' (exit_context lib None)) (\<lambda>_. done_op v) s'
       | (Inl e, s') \<Rightarrow>
           then_op (library_call ''__exit__'' (exit_context lib (Some e)))
             (\<lambda>suppress s''. (Inl (if suppress then NotModelled else e), s'')) s')"

text \<open>
  The two scatter calls of a cell: the points of class 0, then the points of class 1.
\<close>

definition scatter_classes ::
  "'w library \<Rightarrow> real ndarray \<Rightarrow> bool ndarray \<Rightarrow> bool ndarray \<Rightarrow> (unit, 'w) op" where
  "scatter_classes lib a is_0 is_1 =
     then_op (array_op ''a[c==0, 0], a[c==0, 1]'' (scatter_points a is_0)) (\<lambda>(xs, ys).
     then_op (call_plot lib ''ax.scatter'' [xs, ys]) (\<lambda>_.
     then_op (array_op ''a[c==1, 0], a[c==1, 1]'' (scatter_points a is_1)) (\<lambda>(xs, ys).
     call_plot lib ''ax.scatter'' [xs, ys])))"

text \<open>
  A contour cell: palette, figure, the contour of the reduced samples, the test points
  by predicted label, colour bar and labels.
\<close>

definition contour_plot ::
  "'w library \<Rightarrow> string \<Rightarrow> (real ndarray \<Rightarrow> error + real ndarray) \<Rightarrow> real ndarray \<Rightarrow> real ndarray
     \<Rightarrow> real ndarray \<Rightarrow> bool ndarray \<Rightarrow> (unit, 'w) op" where
  "contour_plot lib palette reduce grid ppc X_test pred =
     then_op (call_other lib palette) (\<lambda>_.
     then_op (call_other lib ''plt.subplots'') (\<lambda>_.
     then_op (array_op ''grid[0], grid[1], reduce(ppc).reshape(100, 100)''
                (contour_arguments reduce grid ppc)) (\<lambda>(gx, gy, z).
     then_op (call_plot lib ''ax.contourf'' [gx, gy, z]) (\<lambda>_.
     then_op (scatter_classes lib X_test (elementwise (\<lambda>b. of_bool b = (0::nat)) pred)
                (elementwise (\<lambda>b. of_bool b = (1::nat)) pred)) (\<lambda>_.
     then_op (call_other lib ''plt.colorbar'') (\<lambda>_.
     then_op (call_other lib ''ax.set'') (\<lambda>_.
     call_other lib ''cbar.ax.set_ylabel'')))))))"

text \<open>
  The cells of more than one statement. A cast to \<^verbatim>\<open>floatX\<close> is a call into the
  library that may raise; on the reals its result is its argument. The reads and writes
  of attributes of library objects are calls as well; \<^verbatim>\<open>ann_output\<close> holds
  \<open>y_train\<close>.
\<close>

definition imports_cell :: "'w library \<Rightarrow> (unit, 'w) op" where
  "imports_cell lib =
     then_op (call_other lib ''%matplotlib inline'') (\<lambda>_.
     then_op (call_other lib ''import numpy'') (\<lambda>_.
     then_op (call_other lib ''import pandas'') (\<lambda>_.
     then_op (call_other lib ''import matplotlib.pyplot'') (\<lambda>_.
     then_op (call_other lib ''import seaborn'') (\<lambda>_.
     then_op (call_other lib ''sns.set'') (\<lambda>_.
     then_op (call_other lib ''import theano'') (\<lambda>_.
     then_op (call_other lib ''import theano.tensor'') (\<lambda>_.
     then_op (call_other lib ''import pymc3'') (\<lambda>_.
     then_op (call_other lib ''from scipy import optimize'') (\<lambda>_.
     then_op (call_other lib ''from ipywidgets import interact'') (\<lambda>_.
     then_op (call_other lib ''from IPython.display import SVG'') (\<lambda>_.
     then_op (call_other lib ''from sklearn import datasets'') (\<lambda>_.
     then_op (call_other lib ''from sklearn.model_selection import train_test_split'') (\<lambda>_.
     then_op (call_other lib ''from sklearn.preprocessing import scale'') (\<lambda>_.
     then_op (call_other lib ''theano.config.floatX'') (\<lambda>_.
     call_other lib ''theano.config.compute_test_value''))))))))))))))))"

definition dataset_cell :: "'w library \<Rightarrow> (real ndarray \<times> real ndarray, 'w) op" where
  "dataset_cell lib =
     then_op (library_call ''datasets.make_moons'' (make_moons lib (2 / 10) 1000)) (\<lambda>(X_raw, y).
     then_op (library_call ''scale'' (scale lib X_raw)) (\<lambda>X.
     then_op (call_other lib ''plt.subplots'') (\<lambda>_.
     then_op (scatter_classes lib X (elementwise (\<lambda>v. v = 0) y) (elementwise (\<lambda>v. v = 1) y)) (\<lambda>_.
     then_op (call_other lib ''sns.despine'') (\<lambda>_.
     then_op (call_other lib ''ax.legend'') (\<lambda>_.
     then_op (call_other lib ''ax.set'') (\<lambda>_.
     done_op (X, y))))))))"

definition split_cell ::
  "'w library \<Rightarrow> real ndarray \<Rightarrow> real ndarray
     \<Rightarrow> (real ndarray \<times> real ndarray \<times> real ndarray \<times> real ndarray, 'w) op" where
  "split_cell lib X y =
     then_op (call_other lib ''X.astype'') (\<lambda>_.
     then_op (call_other lib ''y.astype'') (\<lambda>_.
     then_op (library_call ''train_test_split'' (train_test_split lib X y (3 / 10))) (\<lambda>split.
     then_op (call_other lib ''theano.shared'') (\<lambda>_.
     then_op (call_other lib ''theano.shared'') (\<lambda>_.
     done_op split)))))"

definition init_cell ::
  "'w library \<Rightarrow> real ndarray \<Rightarrow> (real ndarray \<times> real ndarray \<times> real ndarray, 'w) op" where
  "init_cell lib X =
     then_op (array_op ''X.shape[1]'' (dim X 1)) (\<lambda>n_in.
     then_op (library_call ''np.random.randn'' (randn lib [n_in, n_hidden])) (\<lambda>init_1.
     then_op (call_other lib ''astype'') (\<lambda>_.
     then_op (library_call ''np.random.randn'' (randn lib [n_hidden, n_hidden])) (\<lambda>init_2.
     then_op (call_other lib ''astype'') (\<lambda>_.
     then_op (library_call ''np.random.randn'' (randn lib [n_hidden])) (\<lambda>init_out.
     then_op (call_other lib ''astype'') (\<lambda>_.
     done_op (init_1, init_2, init_out))))))))"

text \<open>
  The block of \<^verbatim>\<open>with pm.Model() as neural_network\<close>, statement by statement. Each
  declaration is a call into the library with the variable it declares, and the six
  \<^verbatim>\<open>pm.math\<close> calls build the symbolic graph of the layers; every one of them may
  raise. A block that completes has declared the model that \<open>neural_network\<close> describes.
\<close>

definition weight_variable :: "string \<Rightarrow> nat list \<Rightarrow> real ndarray \<Rightarrow> random_variable" where
  "weight_variable v s init =
     \<lparr>name = v, distribution = Normal 0 1, rv_shape = Some s,
      testval = Some init, observed = None, total_size = None\<rparr>"

definition out_variable :: "real ndarray \<Rightarrow> nat \<Rightarrow> random_variable" where
  "out_variable ann_output n_train =
     \<lparr>name = ''out'', distribution = Bernoulli act_out, rv_shape = None,
      testval = None, observed = Some ann_output, total_size = Some n_train\<rparr>"

definition model_block ::
  "'w library \<Rightarrow> real ndarray \<Rightarrow> real ndarray \<Rightarrow> real ndarray \<Rightarrow> real ndarray \<Rightarrow> real ndarray
     \<Rightarrow> (model, 'w) op" where
  "model_block lib X y_train init_1 init_2 init_out =
     then_op (array_op ''X.shape[1]'' (dim X 1)) (\<lambda>n_in.
     then_op (library_call ''pm.Normal''
                (register lib (weight_variable ''w_in_1'' [n_in, n_hidden] init_1))) (\<lambda>_.
     then_op (library_call ''pm.Normal''
                (register lib (weight_variable ''w_1_2'' [n_hidden, n_hidden] init_2))) (\<lambda>_.
     then_op (library_call ''pm.Normal''
                (register lib (weight_variable ''w_2_out'' [n_hidden] init_out))) (\<lambda>_.
     then_op (call_other lib ''pm.math.dot'') (\<lambda>_.
     then_op (call_other lib ''pm.math.tanh'') (\<lambda>_.
     then_op (call_other lib ''pm.math.dot'') (\<lambda>_.
     then_op (call_other lib ''pm.math.tanh'') (\<lambda>_.
     then_op (call_other lib ''pm.math.dot'') (\<lambda>_.
     then_op (call_other lib ''pm.math.sigmoid'') (\<lambda>_.
     then_op (array_op ''y_train.shape[0]'' (dim y_train 0)) (\<lambda>n_train.
     then_op (library_call ''pm.Bernoulli'' (register lib (out_variable y_train n_train))) (\<lambda>_.
     done_op \<lparr>free_RVs =
                [weight_variable ''w_in_1'' [n_in, n_hidden] init_1,
                 weight_variable ''w_1_2'' [n_hidden, n_hidden] init_2,
                 weight_variable ''w_2_out'' [n_hidden] init_out],
              observed_RVs = [out_variable y_train n_train]\<rparr>))))))))))))"

definition model_cell ::
  "'w library \<Rightarrow> real ndarray \<Rightarrow> real ndarray \<Rightarrow> real ndarray \<Rightarrow> real ndarray \<Rightarrow> real ndarray
     \<Rightarrow> (model, 'w) op" where
  "model_cell lib X y_train init_1 init_2 init_out =
     then_op (call_other lib ''pm.Model'') (\<lambda>_.
     with_context lib (model_block lib X y_train init_1 init_2 init_out))"

text \<open>\<^verbatim>\<open>with neural_network: approx = pm.fit(n=30000)\<close>\<close>

definition fit_cell :: "'w library \<Rightarrow> model \<Rightarrow> (approximation, 'w) op" where
  "fit_cell lib m = with_context lib (library_call ''pm.fit'' (fit lib m 30000))"

definition objective_cell :: "'w library \<Rightarrow> (unit, 'w) op" where
  "objective_cell lib =
     then_op (call_other lib ''-approx.hist'') (\<lambda>_.
     then_op (call_other lib ''plt.plot'') (\<lambda>_.
     then_op (call_other lib ''plt.legend'') (\<lambda>_.
     then_op (call_other lib ''plt.ylabel'') (\<lambda>_.
     call_other lib ''plt.xlabel''))))"

definition compile_cell :: "'w library \<Rightarrow> real ndarray \<Rightarrow> (unit, 'w) op" where
  "compile_cell lib X_train =
     then_op (call_other lib ''tt.matrix'') (\<lambda>_.
     then_op (call_other lib ''tt.iscalar'') (\<lambda>_.
     then_op (array_op ''X_train[:10]'' (first_items X_train 10)) (\<lambda>_.
     then_op (call_other lib ''np.empty_like'') (\<lambda>_.
     then_op (call_other lib ''x.tag.test_value'') (\<lambda>_.
     then_op (call_other lib ''n.tag.test_value'') (\<lambda>_.
     then_op (call_other lib ''neural_network.out.distribution.p'') (\<lambda>_.
     then_op (call_other lib ''approx.sample_node'') (\<lambda>_.
     call_other lib ''theano.function''))))))))"

definition accuracy_cell :: "'w library \<Rightarrow> real ndarray \<Rightarrow> bool ndarray \<Rightarrow> (real option, 'w) op" where
  "accuracy_cell lib y_test pred =
     then_op (array_op ''(y_test == pred).mean() * 100'' (accuracy y_test pred)) (\<lambda>acc.
     then_op (library_call ''print'' (print lib acc)) (\<lambda>_.
     done_op acc))"

definition labels_cell :: "'w library \<Rightarrow> real ndarray \<Rightarrow> bool ndarray \<Rightarrow> (unit, 'w) op" where
  "labels_cell lib X_test pred =
     then_op (call_other lib ''plt.subplots'') (\<lambda>_.
     then_op (scatter_classes lib X_test (elementwise (\<lambda>b. of_bool b = (0::nat)) pred)
                (elementwise (\<lambda>b. of_bool b = (1::nat)) pred)) (\<lambda>_.
     then_op (call_other lib ''sns.despine'') (\<lambda>_.
     call_other lib ''ax.set'')))"

text \<open>
  The notebook: its cells in order, in three parts. \<open>training\<close> runs the cells from the
  starting values of the weights to the compilation of \<open>sample_proba\<close> and yields the
  fitted approximation. \<open>up_to_prediction\<close> runs the cells from the imports to the cell
  that computes \<open>pred\<close>; besides \<open>pred\<close> it yields the variables that later cells read.
  \<open>after_prediction\<close> runs the cells from the accuracy to the last contour plot and
  yields the accuracy and the samples \<open>ppc\<close> on the grid; the cast of the grid by
  \<^verbatim>\<open>pm.floatX\<close> is the call that precedes the array operation of the grid cell.
  Each sampling call continues with the generator state that the previous one left. An
  array operation that meets a shape outside the model ends the run with \<open>NotModelled\<close>.
\<close>

definition training ::
  "'w library \<Rightarrow> real ndarray \<Rightarrow> real ndarray \<Rightarrow> real ndarray \<Rightarrow> (approximation, 'w) op" where
  "training lib X X_train y_train =
     then_op (init_cell lib X) (\<lambda>(init_1, init_2, init_out).
     then_op (model_cell lib X y_train init_1 init_2 init_out) (\<lambda>m.
     then_op (fit_cell lib m) (\<lambda>approx.
     then_op (library_call ''approx.sample'' (sample lib approx 5000)) (\<lambda>approx.
     then_op (objective_cell lib) (\<lambda>_.
     then_op (compile_cell lib X_train) (\<lambda>_.
     done_op approx))))))"

definition up_to_prediction ::
  "'w library \<Rightarrow> (real ndarray \<times> real ndarray \<times> bool ndarray \<times> approximation, 'w) op" where
  "up_to_prediction lib =
     then_op (imports_cell lib) (\<lambda>_.
     then_op (dataset_cell lib) (\<lambda>(X, y).
     then_op (split_cell lib X y) (\<lambda>(X_train, X_test, y_train, y_test).
     then_op (training lib X X_train y_train) (\<lambda>approx.
     then_op (array_op ''sample_proba(X_test, 500).mean(0) > 0.5'' (predict approx X_test))
       (\<lambda>(pred, approx).
     done_op (X_test, y_test, pred, approx))))))"

definition after_prediction ::
  "'w library \<Rightarrow> real ndarray \<Rightarrow> real ndarray \<Rightarrow> bool ndarray \<Rightarrow> approximation
     \<Rightarrow> (real option \<times> real ndarray, 'w) op" where
  "after_prediction lib X_test y_test pred approx =
     then_op (accuracy_cell lib y_test pred) (\<lambda>acc.
     then_op (labels_cell lib X_test pred) (\<lambda>_.
     then_op (call_other lib ''pm.floatX'') (\<lambda>_.
     then_op (array_op ''grid, grid_2d, dummy_out'' grid_cell) (\<lambda>(grid, grid_2d, dummy_out).
     then_op (array_op ''sample_proba(grid_2d, 500)'' (sample_proba approx grid_2d 500))
       (\<lambda>(ppc, approx).
     then_op (contour_plot lib ''sns.diverging_palette'' mean_axis0 grid ppc X_test pred) (\<lambda>_.
     then_op (contour_plot lib ''sns.cubehelix_palette'' std_axis0 grid ppc X_test pred) (\<lambda>_.
     done_op (acc, ppc))))))))"

definition notebook :: "'w library \<Rightarrow> (bool ndarray \<times> real option \<times> real ndarray, 'w) op" where
  "notebook lib =
     then_op (up_to_prediction lib) (\<lambda>(X_test, y_test, pred, approx).
     then_op (after_prediction lib X_test y_test pred approx) (\<lambda>(acc, ppc).
     done_op (pred, acc, ppc)))"

text \<open>
  The operations of the notebook in the order of the source, cell by cell: what a run
  that raises nowhere executes.
\<close>

definition scatter_operations :: "(kind \<times> string) list" where
  "scatter_operations =
     [(Array, ''a[c==0, 0], a[c==0, 1]''), (Library, ''ax.scatter''),
      (Array, ''a[c==1, 0], a[c==1, 1]''), (Library, ''ax.scatter'')]"

definition contour_operations :: "string \<Rightarrow> (kind \<times> string) list" where
  "contour_operations palette =
     [(Library, palette), (Library, ''plt.subplots''),
      (Array, ''grid[0], grid[1], reduce(ppc).reshape(100, 100)''), (Library, ''ax.contourf'')]
     @ scatter_operations
     @ [(Library, ''plt.colorbar''), (Library, ''ax.set''), (Library, ''cbar.ax.set_ylabel'')]"

definition training_operations :: "(kind \<times> string) list" where
  "training_operations =
     [(Array, ''X.shape[1]''), (Library, ''np.random.randn''), (Library, ''astype''),
      (Library, ''np.random.randn''), (Library, ''astype''),
      (Library, ''np.random.randn''), (Library, ''astype''),
      (Library, ''pm.Model''), (Library, ''__enter__''),
      (Array, ''X.shape[1]''), (Library, ''pm.Normal''), (Library, ''pm.Normal''),
      (Library, ''pm.Normal''), (Library, ''pm.math.dot''), (Library, ''pm.math.tanh''),
      (Library, ''pm.math.dot''), (Library, ''pm.math.tanh''), (Library, ''pm.math.dot''),
      (Library, ''pm.math.sigmoid''), (Array, ''y_train.shape[0]''), (Library, ''pm.Bernoulli''),
      (Library, ''__exit__''),
      (Library, ''__enter__''), (Library, ''pm.fit''), (Library, ''__exit__''),
      (Library, ''approx.sample''),
      (Library, ''-approx.hist''), (Library, ''plt.plot''), (Library, ''plt.legend''),
      (Library, ''plt.ylabel''), (Library, ''plt.xlabel''),
      (Library, ''tt.matrix''), (Library, ''tt.iscalar''), (Array, ''X_train[:10]''),
      (Library, ''np.empty_like''), (Library, ''x.tag.test_value''),
      (Library, ''n.tag.test_value''), (Library, ''neural_network.out.distribution.p''),
      (Library, ''approx.sample_node''), (Library, ''theano.function'')]"

definition imports_operations :: "(kind \<times> string) list" where
  "imports_operations =
     [(Library, ''%matplotlib inline''), (Library, ''import numpy''), (Library, ''import pandas''),
      (Library, ''import matplotlib.pyplot''), (Library, ''import seaborn''), (Library, ''sns.set''),
      (Library, ''import theano''), (Library, ''import theano.tensor''), (Library, ''import pymc3''),
      (Library, ''from scipy import optimize''), (Library, ''from ipywidgets import interact''),
      (Library, ''from IPython.display import SVG''), (Library, ''from sklearn import datasets''),
      (Library, ''from sklearn.model_selection import train_test_split''),
      (Library, ''from sklearn.preprocessing import scale''),
      (Library, ''theano.config.floatX''), (Library, ''theano.config.compute_test_value'')]"

definition operations :: "(kind \<times> string) list" where
  "operations =
     imports_operations
     @ [(Library, ''datasets.make_moons''), (Library, ''scale''), (Library, ''plt.subplots'')]
     @ scatter_operations
     @ [(Library, ''sns.despine''), (Library, ''ax.legend''), (Library, ''ax.set''),
        (Library, ''X.astype''), (Library, ''y.astype''),
        (Library, ''train_test_split''), (Library, ''theano.shared''), (Library, ''theano.shared'')]
     @ training_operations
     @ [(Array, ''sample_proba(X_test, 500).mean(0) > 0.5''),
        (Array, ''(y_test == pred).mean() * 100''), (Library, ''print''),
        (Library, ''plt.subplots'')]
     @ scatter_operations
     @ [(Library, ''sns.despine''), (Library, ''ax.set''), (Library, ''pm.floatX''),
        (Array, ''grid, grid_2d, dummy_out''), (Array, ''sample_proba(grid_2d, 500)'')]
     @ contour_operations ''sns.diverging_palette''
     @ contour_operations ''sns.cubehelix_palette''"

text \<open>
  A log is clean when no operation in it raised; \<open>executed\<close> are the operations of a log
  without their outcomes. \<open>exits\<close> holds of a log that consists of context exits that did
  not raise. The context exits of a library pass errors on when an exit that is called
  with an error returns false.
\<close>

definition clean :: "log \<Rightarrow> bool" where
  "clean l = (\<forall>entry\<in>set l. snd (snd entry) = None)"

definition executed :: "log \<Rightarrow> (kind \<times> string) list" where
  "executed l = map (\<lambda>(k, what, out). (k, what)) l"

definition exits :: "log \<Rightarrow> bool" where
  "exits l = (\<forall>entry\<in>set l. entry = (Library, ''__exit__'', None))"

definition exits_pass :: "'w library \<Rightarrow> bool" where
  "exits_pass lib = (\<forall>e w. fst (exit_context lib (Some e) w) = Inr False)"

text \<open>
  An operation follows a sequence \<open>ops\<close> when every run of it adds to the log either all
  of \<open>ops\<close>, none of which raised, or an initial part of \<open>ops\<close> whose last operation
  raised the error that is the result, and after it nothing but context exits.
\<close>

definition trace :: "error + 'a \<Rightarrow> log \<Rightarrow> (kind \<times> string) list \<Rightarrow> bool" where
  "trace r l ops =
     (case r of
        Inr v \<Rightarrow> clean l \<and> executed l = ops
      | Inl e \<Rightarrow>
          (\<exists>pre k what post rest.
             l = pre @ [(k, what, Some e)] @ post \<and> clean pre \<and> exits post
             \<and> ops = executed pre @ [(k, what)] @ rest))"

definition follows :: "('a, 'w) op \<Rightarrow> (kind \<times> string) list \<Rightarrow> bool" where
  "follows m ops =
     (\<forall>w l. \<exists>new. snd (snd (m (w, l))) = l @ new \<and> trace (fst (m (w, l))) new ops)"

text \<open>
  A second library for a second run: the same calls, but the test labels that
  \<^verbatim>\<open>train_test_split\<close> returns are replaced by \<open>f\<close> of them.
\<close>

definition with_test_labels :: "(real ndarray \<Rightarrow> real ndarray) \<Rightarrow> 'w library \<Rightarrow> 'w library" where
  "with_test_labels f lib =
     lib\<lparr>train_test_split := (\<lambda>X y test_size w.
            case train_test_split lib X y test_size w of
              (Inl e, w') \<Rightarrow> (Inl e, w')
            | (Inr (X_train, X_test, y_train, y_test), w') \<Rightarrow>
                (Inr (X_train, X_test, y_train, f y_test), w'))\<rparr>"

text \<open>
  An operation completes with \<open>Q\<close> when from every state it returns a value, and the
  value satisfies \<open>Q\<close>. A library delivers when none of its calls raises and the arrays
  it returns have the shapes that the notebook's cells expect of them: a dataset of two
  columns with one label for each row, scaled without a change of shape, split into
  training and test rows with their labels, the test set not empty, and an approximation
  whose weight samples have the declared shapes.
\<close>

definition completes :: "('a, 'w) op \<Rightarrow> ('a \<Rightarrow> bool) \<Rightarrow> bool" where
  "completes m Q = (\<forall>s. \<exists>v s'. m s = (Inr v, s') \<and> Q v)"

definition delivers :: "'w library \<Rightarrow> bool" where
  "delivers lib =
     ((\<forall>what w. \<exists>w'. other lib what w = (Inr (), w'))
    \<and> (\<forall>what args w. \<exists>w'. plot lib what args w = (Inr (), w'))
    \<and> (\<forall>v w. \<exists>w'. print lib v w = (Inr (), w'))
    \<and> (\<forall>v w. \<exists>w'. register lib v w = (Inr (), w'))
    \<and> (\<forall>w. \<exists>b w'. exit_context lib None w = (Inr b, w'))
    \<and> (\<forall>noise n w. \<exists>X y w'. make_moons lib noise n w = (Inr (X, y), w')
           \<and> shape X = [n, 2] \<and> shape y = [n])
    \<and> (\<forall>X w. \<exists>X' w'. scale lib X w = (Inr X', w') \<and> shape X' = shape X)
    \<and> (\<forall>X y test_size w. \<exists>X_train X_test y_train y_test n_train n_test w'.
           train_test_split lib X y test_size w = (Inr (X_train, X_test, y_train, y_test), w')
           \<and> shape X_train = [n_train, 2] \<and> shape y_train = [n_train]
           \<and> shape X_test = [n_test, 2] \<and> shape y_test = [n_test] \<and> well_formed y_test
           \<and> 0 < n_test)
    \<and> (\<forall>s w. \<exists>a w'. randn lib s w = (Inr a, w'))
    \<and> (\<forall>m n w. \<exists>a w'. fit lib m n w = (Inr a, w') \<and> (\<forall>i. weights_shaped 2 (draws a i)))
    \<and> (\<forall>a n w. \<exists>a' w'. sample lib a n w = (Inr a', w')
           \<and> ((\<forall>i. weights_shaped 2 (draws a i)) \<longrightarrow> (\<forall>i. weights_shaped 2 (draws a' i)))))"

section \<open>Example inputs\<close>

definition zeros :: "nat list \<Rightarrow> real ndarray" where
  "zeros s = \<lparr>shape = s, data = replicate (prod_list s) 0\<rparr>"

definition example_weights :: weights where
  "example_weights = \<lparr>w_in_1 = zeros [2, 5], w_1_2 = zeros [5, 5], w_2_out = zeros [5]\<rparr>"

definition example_approx :: approximation where
  "example_approx = \<lparr>draws = (\<lambda>i. example_weights), consumed = 0\<rparr>"

text \<open>
  A library that delivers arrays of zeros and raises nowhere, and one in which the
  declaration of \<open>w_1_2\<close> raises; in both the context exits return false.
\<close>

definition quiet_library :: "unit library" where
  "quiet_library =
     \<lparr>make_moons = (\<lambda>noise n w. (Inr (zeros [n, 2], zeros [n]), w)),
      scale = (\<lambda>a w. (Inr a, w)),
      train_test_split = (\<lambda>a b s w. (Inr (zeros [700, 2], zeros [300, 2], zeros [700], zeros [300]), w)),
      randn = (\<lambda>s w. (Inr (zeros s), w)),
      register = (\<lambda>v w. (Inr (), w)),
      exit_context = (\<lambda>e w. (Inr False, w)),
      fit = (\<lambda>m n w. (Inr example_approx, w)),
      sample = (\<lambda>a n w. (Inr a, w)),
      plot = (\<lambda>what args w. (Inr (), w)),
      print = (\<lambda>v w. (Inr (), w)),
      other = (\<lambda>what w. (Inr (), w))\<rparr>"

definition failing_library :: "unit library" where
  "failing_library =
     quiet_library\<lparr>register := (\<lambda>v w. (if name v = ''w_1_2'' then Inl ValueError else Inr (), w))\<rparr>"

text \<open>Test labels with every label replaced by the other one.\<close>

definition flipped :: "real ndarray \<Rightarrow> real ndarray" where
  "flipped y = elementwise (\<lambda>v. 1 - v) y"

section \<open>Properties of the operations\<close>

subsection \<open>Errors\<close>

lemma and_then_Inr [simp]: "and_then (Inr v) f = f v"
  by (simp add: and_then_def)

lemma and_then_Inl [simp]: "and_then (Inl e) f = Inl e"
  by (simp add: and_then_def)

lemma and_then_eq_Inr:
  "and_then r f = Inr b \<longleftrightarrow> (\<exists>v. r = Inr v \<and> f v = Inr b)"
  by (cases r) simp_all

lemma collect_eq_Inr: "collect rs = Inr vs \<longleftrightarrow> rs = map Inr vs"
proof (induction rs arbitrary: vs)
  case Nil
  then show ?case by auto
next
  case (Cons r rs)
  show ?case
  proof (cases r)
    case (Inl e)
    then show ?thesis by (cases vs) simp_all
  next
    case (Inr v)
    show ?thesis
    proof (cases vs)
      case Nil
      then show ?thesis using Inr by (simp add: and_then_eq_Inr)
    next
      case (Cons u us)
      have "(\<exists>vs'. collect rs = Inr vs' \<and> v # vs' = u # us) \<longleftrightarrow> (v = u \<and> collect rs = Inr us)"
        by auto
      then show ?thesis using Inr Cons Cons.IH [of us] by (simp add: and_then_eq_Inr)
    qed
  qed
qed

lemma collect_map_Inr [simp]: "collect (map Inr vs) = Inr vs"
  by (simp add: collect_eq_Inr)

subsection \<open>Lists in row-major order\<close>

lemma nth_concat_uniform:
  "\<forall>l\<in>set ls. length l = n \<Longrightarrow> i < length ls \<Longrightarrow> j < n \<Longrightarrow> concat ls ! (i * n + j) = ls ! i ! j"
proof (induction ls arbitrary: i)
  case Nil
  then show ?case by simp
next
  case (Cons l ls)
  show ?case
  proof (cases i)
    case 0
    then show ?thesis using Cons.prems by (simp add: nth_append)
  next
    case (Suc i')
    then show ?thesis using Cons by (simp add: nth_append)
  qed
qed

lemma length_concat_uniform:
  "\<forall>l\<in>set ls. length l = n \<Longrightarrow> length (concat ls) = length ls * n"
  by (induction ls) auto

lemma index_in_grid:
  assumes "i < n1" and "j < n2"
  shows "i * n2 + j < n1 * (n2::nat)"
proof -
  have "i * n2 + j < Suc i * n2" using assms(2) by simp
  also have "\<dots> \<le> n1 * n2" using assms(1) by (intro mult_le_mono1) simp
  finally show ?thesis .
qed

lemma sum_list_of_bool:
  "sum_list (map of_bool bs) = real (card {j. j < length bs \<and> bs ! j})"
proof (induction bs rule: rev_induct)
  case Nil
  then show ?case by simp
next
  case (snoc b bs)
  have split: "{j. j < Suc (length bs) \<and> (bs @ [b]) ! j} =
      {j. j < length bs \<and> bs ! j} \<union> (if b then {length bs} else {})"
    by (auto simp: nth_append less_Suc_eq)
  have fin: "finite {j. j < length bs \<and> bs ! j}" by simp
  show ?case using snoc fin by (simp add: split)
qed

subsection \<open>Shapes\<close>

lemma shape_elementwise [simp]: "shape (elementwise f a) = shape a"
  by (simp add: elementwise_def)

lemma data_elementwise [simp]: "data (elementwise f a) = map f (data a)"
  by (simp add: elementwise_def)

lemma dot_matrix_matrix:
  "shape a = [m, k] \<Longrightarrow> shape b = [k, n] \<Longrightarrow> \<exists>c. dot a b = Inr c \<and> shape c = [m, n]"
  by (simp add: dot_def)

lemma dot_matrix_vector:
  "shape a = [m, k] \<Longrightarrow> shape b = [k] \<Longrightarrow> \<exists>c. dot a b = Inr c \<and> shape c = [m] \<and> length (data c) = m"
  by (simp add: dot_def)

lemma mean_axis0_matrix:
  assumes "shape a = [r, c]" "0 < r"
  shows "mean_axis0 a = Inr \<lparr>shape = [c], data = map (\<lambda>j. (\<Sum>i\<leftarrow>[0..<r]. data a ! (i * c + j)) / real r) [0..<c]\<rparr>"
  using assms by (simp add: mean_axis0_def column_def)

lemma std_axis0_matrix:
  assumes "shape a = [r, c]" "0 < r"
  shows "\<exists>s. std_axis0 a = Inr s \<and> shape s = [c] \<and> length (data s) = c"
  using assms by (simp add: std_axis0_def)

lemma item_total:
  assumes "shape a = r # rest" "i < r"
  shows "\<exists>b. item a i = Inr b \<and> shape b = rest"
  using assms by (simp add: item_def)

lemma reshape_rows_inferred:
  assumes "prod_list (shape a) = r * c" "0 < r"
  shows "reshape a [int r, - 1] = Inr (a\<lparr>shape := [r, c]\<rparr>)"
  using assms by (simp add: reshape_def)

lemma reshape_matrix:
  assumes "prod_list (shape a) = r * c"
  shows "reshape a [int r, int c] = Inr (a\<lparr>shape := [r, c]\<rparr>)"
  using assms by (simp add: reshape_def)

lemma shape_T [simp]: "shape (T a) = rev (shape a)"
  by (simp add: T_def)

lemma length_data_T [simp]: "length (data (T a)) = prod_list (shape a)"
  by (simp add: T_def)

lemma shape_mgrid [simp]: "shape (mgrid a1 b1 n1 a2 b2 n2) = [2, n1, n2]"
  by (simp add: mgrid_def)

lemma length_linspace [simp]: "length (linspace a b n) = n"
  by (simp add: linspace_def)

lemma length_data_mgrid [simp]: "length (data (mgrid a1 b1 n1 a2 b2 n2)) = 2 * (n1 * n2)"
proof -
  have "length (concat (map (replicate n2) (linspace a1 b1 n1))) = n1 * n2"
    using length_concat_uniform [of "map (replicate n2) (linspace a1 b1 n1)" n2] by auto
  moreover have "length (concat (replicate n1 (linspace a2 b2 n2))) = n1 * n2"
    using length_concat_uniform [of "replicate n1 (linspace a2 b2 n2)" n2] by auto
  ultimately show ?thesis by (simp add: mgrid_def)
qed

lemma scatter_points_total:
  assumes "shape a = [r, c]" "shape m = [r]" "2 \<le> c"
  shows "\<exists>xs ys. scatter_points a m = Inr (xs, ys)"
  using assms by (simp add: scatter_points_def mask_column_def Let_def)

lemma shape_zeros [simp]: "shape (zeros s) = s"
  by (simp add: zeros_def)

lemma length_data_zeros [simp]: "length (data (zeros s)) = prod_list s"
  by (simp add: zeros_def)

lemma well_formed_zeros: "well_formed (zeros s)"
  by (simp add: well_formed_def)

subsection \<open>The layers\<close>

lemma act_out_total:
  assumes "shape x = [N, d]" "shape (w_in_1 w) = [d, h1]" "shape (w_1_2 w) = [h1, h2]" "shape (w_2_out w) = [h2]"
  shows "\<exists>a1 a2 p. act_1 w x = Inr a1 \<and> shape a1 = [N, h1] \<and> act_2 w x = Inr a2 \<and> shape a2 = [N, h2] \<and> act_out w x = Inr p \<and> shape p = [N] \<and> length (data p) = N"
proof -
  from dot_matrix_matrix [OF assms(1,2)] obtain z1 where z1: "dot x (w_in_1 w) = Inr z1" "shape z1 = [N, h1]" by blast
  have a1: "act_1 w x = Inr (elementwise tanh z1)" by (simp add: act_1_def z1)
  have s1: "shape (elementwise tanh z1) = [N, h1]" by (simp add: z1)
  from dot_matrix_matrix [OF s1 assms(3)] obtain z2 where z2: "dot (elementwise tanh z1) (w_1_2 w) = Inr z2" "shape z2 = [N, h2]" by blast
  have a2: "act_2 w x = Inr (elementwise tanh z2)" by (simp add: act_2_def a1 z2)
  have s2: "shape (elementwise tanh z2) = [N, h2]" by (simp add: z2)
  from dot_matrix_vector [OF s2 assms(4)] obtain z3 where z3: "dot (elementwise tanh z2) (w_2_out w) = Inr z3" "shape z3 = [N]" "length (data z3) = N" by blast
  have a3: "act_out w x = Inr (elementwise sigmoid z3)" by (simp add: act_out_def a2 z3)
  show ?thesis using a1 s1 a2 s2 a3 z3 by simp
qed

lemma example_weights_shaped: "weights_shaped 2 example_weights"
  by (simp add: weights_shaped_def example_weights_def n_hidden_def)

lemma example_approx_shaped: "\<forall>i. weights_shaped 2 (draws example_approx i)"
  by (simp add: example_approx_def example_weights_shaped)

subsection \<open>Sampling, prediction and accuracy\<close>

lemma sample_proba_total:
  assumes x: "shape x = [rows, n_in]"
    and w: "\<forall>i. weights_shaped n_in (draws approx i)"
  shows "\<exists>ps. sample_proba approx x n =
            Inr (\<lparr>shape = [n, rows], data = concat (map data ps)\<rparr>, approx\<lparr>consumed := consumed approx + n\<rparr>)
          \<and> length ps = n
          \<and> (\<forall>i<n. act_out (draws approx (consumed approx + i)) x = Inr (ps ! i)
                    \<and> shape (ps ! i) = [rows] \<and> length (data (ps ! i)) = rows)"
proof -
  have each: "\<exists>p. act_out (draws approx k) x = Inr p \<and> shape p = [rows] \<and> length (data p) = rows" for k
  proof -
    from w have "weights_shaped n_in (draws approx k)" by blast
    then have "shape (w_in_1 (draws approx k)) = [n_in, n_hidden]"
      "shape (w_1_2 (draws approx k)) = [n_hidden, n_hidden]"
      "shape (w_2_out (draws approx k)) = [n_hidden]"
      by (simp_all add: weights_shaped_def)
    from act_out_total [OF x this] show ?thesis by blast
  qed
  define f where "f k = (SOME p. act_out (draws approx k) x = Inr p \<and> shape p = [rows] \<and> length (data p) = rows)" for k
  have f: "act_out (draws approx k) x = Inr (f k) \<and> shape (f k) = [rows] \<and> length (data (f k)) = rows" for k
    unfolding f_def by (rule someI_ex) (rule each)
  define ps where "ps = map (\<lambda>i. f (consumed approx + i)) [0..<n]"
  have "map (\<lambda>i. act_out (draws approx (consumed approx + i)) x) [0..<n] = map Inr ps"
    by (simp add: ps_def f)
  then have "sample_proba approx x n =
      Inr (\<lparr>shape = [n, rows], data = concat (map data ps)\<rparr>, approx\<lparr>consumed := consumed approx + n\<rparr>)"
    by (simp add: sample_proba_def x)
  moreover have "length ps = n" by (simp add: ps_def)
  moreover have "\<forall>i<n. act_out (draws approx (consumed approx + i)) x = Inr (ps ! i)
                    \<and> shape (ps ! i) = [rows] \<and> length (data (ps ! i)) = rows"
    by (simp add: ps_def f)
  ultimately show ?thesis by blast
qed

lemma predict_value:
  assumes x: "shape X_test = [rows, n_in]"
    and pos: "0 < rows"
    and w: "\<forall>i. weights_shaped n_in (draws approx i)"
  shows "\<exists>probs pred approx'.
      sample_proba approx X_test 500 = Inr (probs, approx') \<and> shape probs = [500, rows]
      \<and> predict approx X_test = Inr (pred, approx') \<and> shape pred = [rows] \<and> length (data pred) = rows
      \<and> (\<forall>j<rows. data pred ! j \<longleftrightarrow> 1 / 2 < (\<Sum>i\<leftarrow>[0..<500]. data probs ! (i * rows + j)) / 500)
      \<and> (\<forall>i<500. \<exists>p. act_out (draws approx (consumed approx + i)) X_test = Inr p
             \<and> (\<forall>j<rows. data probs ! (i * rows + j) = data p ! j))"
proof -
  from sample_proba_total [OF x w, of 500] obtain ps where
    sp: "sample_proba approx X_test 500 =
           Inr (\<lparr>shape = [500, rows], data = concat (map data ps)\<rparr>, approx\<lparr>consumed := consumed approx + 500\<rparr>)"
    and len: "length ps = 500"
    and each: "\<forall>i<500. act_out (draws approx (consumed approx + i)) X_test = Inr (ps ! i)
                    \<and> shape (ps ! i) = [rows] \<and> length (data (ps ! i)) = rows"
    by blast
  define probs where "probs = \<lparr>shape = [500, rows], data = concat (map data ps)\<rparr>"
  define m where "m = \<lparr>shape = [rows],
      data = map (\<lambda>j. (\<Sum>i\<leftarrow>[0..<500]. data probs ! (i * rows + j)) / real (500::nat)) [0..<rows]\<rparr>"
  have sh: "shape probs = [500, rows]" by (simp add: probs_def)
  have mean: "mean_axis0 probs = Inr m"
    unfolding m_def by (rule mean_axis0_matrix [OF sh]) simp
  have pr: "predict approx X_test = Inr (elementwise (\<lambda>v. 1 / 2 < v) m, approx\<lparr>consumed := consumed approx + 500\<rparr>)"
    using sp mean by (simp add: predict_def probs_def)
  have uniform: "\<forall>l\<in>set (map data ps). length l = rows"
    using each len by (auto simp: in_set_conv_nth)
  have cell: "data probs ! (i * rows + j) = data (ps ! i) ! j" if "i < 500" "j < rows" for i j
    using nth_concat_uniform [OF uniform, of i j] that len by (simp add: probs_def)
  have "\<forall>j<rows. data (elementwise (\<lambda>v. 1 / 2 < v) m) ! j
          \<longleftrightarrow> 1 / 2 < (\<Sum>i\<leftarrow>[0..<500]. data probs ! (i * rows + j)) / 500"
    by (simp add: m_def)
  moreover have "\<forall>i<500. \<exists>p. act_out (draws approx (consumed approx + i)) X_test = Inr p
             \<and> (\<forall>j<rows. data probs ! (i * rows + j) = data p ! j)"
    using each cell by blast
  moreover have "shape (elementwise (\<lambda>v. 1 / 2 < v) m) = [rows]"
    "length (data (elementwise (\<lambda>v. 1 / 2 < v) m)) = rows"
    by (simp_all add: m_def)
  ultimately show ?thesis using sp pr sh unfolding probs_def [symmetric] by blast
qed

lemma accuracy_value:
  assumes y: "shape y_test = [rows]" "length (data y_test) = rows"
    and p: "shape pred = [rows]" "length (data pred) = rows"
    and pos: "0 < rows"
  shows "accuracy y_test pred =
     Inr (Some (real (card {j. j < rows \<and> data y_test ! j = of_bool (data pred ! j)}) / real rows * 100))"
proof -
  define bs where "bs = map (\<lambda>(u, v). u = of_bool v) (zip (data y_test) (data pred))"
  have len: "length bs = rows" by (simp add: bs_def y p)
  have nth: "bs ! j = (data y_test ! j = of_bool (data pred ! j))" if "j < rows" for j
    using that by (simp add: bs_def y p)
  have set_eq: "{j. j < length bs \<and> bs ! j} = {j. j < rows \<and> data y_test ! j = of_bool (data pred ! j)}"
    using len nth by auto
  have hits: "equal_arrays (\<lambda>v b. v = of_bool b) y_test pred = Inr \<lparr>shape = [rows], data = bs\<rparr>"
    by (simp add: equal_arrays_def y p bs_def)
  have ne: "map of_bool bs \<noteq> ([] :: real list)" using len pos by auto
  have "mean (elementwise of_bool \<lparr>shape = [rows], data = bs\<rparr>) =
      Some (sum_list (map of_bool bs) / real rows)"
    using ne len by (simp add: mean_def)
  then show ?thesis
    by (simp add: accuracy_def hits sum_list_of_bool set_eq)
qed


subsection \<open>The grid\<close>

lemma T_matrix_nth:
  assumes "shape a = [r, c]" and "k < r * c"
  shows "data (T a) ! k = data a ! ((k mod r) * c + k div r)"
  using assms by (simp add: T_def)

lemma linspace_nth:
  "i < n \<Longrightarrow> linspace a b n ! i = a + real i * ((b - a) / real (n - 1))"
  by (simp add: linspace_def)

lemma mgrid_points:
  assumes i: "i < n1" and j: "j < n2"
  shows "data (T ((mgrid a1 b1 n1 a2 b2 n2)\<lparr>shape := [2, n1 * n2]\<rparr>)) ! ((i * n2 + j) * 2)
           = linspace a1 b1 n1 ! i
       \<and> data (T ((mgrid a1 b1 n1 a2 b2 n2)\<lparr>shape := [2, n1 * n2]\<rparr>)) ! ((i * n2 + j) * 2 + 1)
           = linspace a2 b2 n2 ! j"
proof -
  let ?g = "(mgrid a1 b1 n1 a2 b2 n2)\<lparr>shape := [2, n1 * n2]\<rparr>"
  let ?xs = "concat (map (replicate n2) (linspace a1 b1 n1))"
  let ?ys = "concat (replicate n1 (linspace a2 b2 n2))"
  have sh: "shape ?g = [2, n1 * n2]" by simp
  have k: "i * n2 + j < n1 * n2" by (rule index_in_grid [OF i j])
  have lx: "length ?xs = n1 * n2"
    using length_concat_uniform [of "map (replicate n2) (linspace a1 b1 n1)" n2] by auto
  have d: "data ?g = ?xs @ ?ys" by (simp add: mgrid_def)
  have x: "?xs ! (i * n2 + j) = linspace a1 b1 n1 ! i"
    using nth_concat_uniform [of "map (replicate n2) (linspace a1 b1 n1)" n2 i j] i j by auto
  have y: "?ys ! (i * n2 + j) = linspace a2 b2 n2 ! j"
    using nth_concat_uniform [of "replicate n1 (linspace a2 b2 n2)" n2 i j] i j by auto
  have b0: "(i * n2 + j) * 2 < 2 * (n1 * n2)" and b1: "(i * n2 + j) * 2 + 1 < 2 * (n1 * n2)"
    using k by simp_all
  define q where "q = i * n2 + j"
  have m0: "(q * 2) mod 2 = 0" and d0: "(q * 2) div 2 = q" by simp_all
  have m1: "(q * 2 + 1) mod 2 = 1" by presburger
  have d1: "(q * 2 + 1) div 2 = q" by presburger
  have "data (T ?g) ! (q * 2) = data ?g ! (((q * 2) mod 2) * (n1 * n2) + (q * 2) div 2)"
    using T_matrix_nth [OF sh] b0 by (simp only: q_def)
  then have "data (T ?g) ! ((i * n2 + j) * 2) = data ?g ! (i * n2 + j)"
    by (simp only: m0 d0) (simp add: q_def)
  moreover have "data (T ?g) ! (q * 2 + 1) = data ?g ! (((q * 2 + 1) mod 2) * (n1 * n2) + (q * 2 + 1) div 2)"
    using T_matrix_nth [OF sh] b1 by (simp only: q_def)
  then have "data (T ?g) ! ((i * n2 + j) * 2 + 1) = data ?g ! (n1 * n2 + (i * n2 + j))"
    by (simp only: m1 d1) (simp add: q_def)
  ultimately show ?thesis using k lx x y by (simp add: d nth_append)
qed

lemma grid_cell_value:
  "grid_cell = Inr (mgrid (- 3) 3 100 (- 3) 3 100,
                    T ((mgrid (- 3) 3 100 (- 3) 3 100)\<lparr>shape := [2, 10000]\<rparr>), ones 100)"
proof -
  have "reshape (mgrid (- 3) 3 100 (- 3) 3 100) [int 2, - 1] =
      Inr ((mgrid (- 3) 3 100 (- 3) 3 100)\<lparr>shape := [2, 10000]\<rparr>)"
    by (rule reshape_rows_inferred) simp_all
  moreover have "dim (mgrid (- 3) 3 100 (- 3) 3 100) 1 = Inr 100"
    by (simp add: dim_def)
  ultimately show ?thesis by (simp add: grid_cell_def Let_def)
qed

lemma grid_cell_shapes:
  "\<exists>g g2 d. grid_cell = Inr (g, g2, d) \<and> shape g = [2, 100, 100] \<and> well_formed g
      \<and> shape g2 = [10000, 2] \<and> well_formed g2 \<and> shape d = [100]
      \<and> (\<forall>i<100. \<forall>j<100. data g2 ! ((i * 100 + j) * 2) = - 3 + real i * (6 / 99)
                           \<and> data g2 ! ((i * 100 + j) * 2 + 1) = - 3 + real j * (6 / 99))"
proof -
  let ?g2 = "T ((mgrid (- 3) 3 100 (- 3) 3 100)\<lparr>shape := [2, 10000]\<rparr>)"
  have "data ?g2 ! ((i * 100 + j) * 2) = - 3 + real i * (6 / 99)
      \<and> data ?g2 ! ((i * 100 + j) * 2 + 1) = - 3 + real j * (6 / 99)"
    if "i < 100" "j < 100" for i j
    using mgrid_points [OF that, of "- 3" 3 "- 3" 3] that by (simp add: linspace_nth)
  then show ?thesis by (simp add: grid_cell_value ones_def well_formed_def)
qed

lemma contour_arguments_mean:
  assumes g: "shape g = [2, 100, 100]" and p: "shape ppc = [n, 10000]" "0 < n"
  shows "\<exists>gx gy z. contour_arguments mean_axis0 g ppc = Inr (gx, gy, z)
           \<and> shape gx = [100, 100] \<and> shape gy = [100, 100] \<and> shape z = [100, 100]"
proof -
  from item_total [OF g, of 0] obtain gx where gx: "item g 0 = Inr gx" "shape gx = [100, 100]" by auto
  from item_total [OF g, of "Suc 0"] obtain gy where gy: "item g (Suc 0) = Inr gy" "shape gy = [100, 100]" by auto
  from mean_axis0_matrix [OF p] obtain s where s: "mean_axis0 ppc = Inr s" "shape s = [10000]" by simp
  have "prod_list (shape s) = 100 * 100" by (simp add: s)
  from reshape_matrix [OF this] have z: "reshape s [100, 100] = Inr (s\<lparr>shape := [100, 100]\<rparr>)" by simp
  show ?thesis by (simp add: contour_arguments_def gx gy s z)
qed

lemma contour_arguments_std:
  assumes g: "shape g = [2, 100, 100]" and p: "shape ppc = [n, 10000]" "0 < n"
  shows "\<exists>gx gy z. contour_arguments std_axis0 g ppc = Inr (gx, gy, z)
           \<and> shape gx = [100, 100] \<and> shape gy = [100, 100] \<and> shape z = [100, 100]"
proof -
  from item_total [OF g, of 0] obtain gx where gx: "item g 0 = Inr gx" "shape gx = [100, 100]" by auto
  from item_total [OF g, of "Suc 0"] obtain gy where gy: "item g (Suc 0) = Inr gy" "shape gy = [100, 100]" by auto
  from std_axis0_matrix [OF p] obtain s where s: "std_axis0 ppc = Inr s" "shape s = [10000]" by auto
  have "prod_list (shape s) = 100 * 100" by (simp add: s)
  from reshape_matrix [OF this] have z: "reshape s [100, 100] = Inr (s\<lparr>shape := [100, 100]\<rparr>)" by simp
  show ?thesis by (simp add: contour_arguments_def gx gy s z)
qed

subsection \<open>The zero input\<close>

text \<open>
  The layers have no bias terms: on an input of zeros every layer but the last is zero
  and the output is \<open>sigmoid 0 = 1/2\<close> in every row, whatever the weights. So the mean
  of the samples is exactly 1/2 and every predicted label is \<open>False\<close>.
\<close>

lemma concat_replicate_replicate: "concat (replicate m (replicate n x)) = replicate (m * n) x"
  by (induction m) (simp_all add: replicate_add)

lemma map_upt_const: "(\<And>i. i < n \<Longrightarrow> f i = c) \<Longrightarrow> map f [0..<n] = replicate n c"
  by (rule nth_equalityI) simp_all

lemma sum_list_all_zero: "\<forall>v\<in>set xs. f v = (0::real) \<Longrightarrow> sum_list (map f xs) = 0"
  by (induction xs) simp_all

lemma nth_zero:
  assumes "well_formed a" and "\<forall>v\<in>set (data a). v = (0::real)" and "k < prod_list (shape a)"
  shows "data a ! k = 0"
  using assms by (simp add: well_formed_def)

lemma dot_zero_matrix:
  assumes a: "shape a = [m, k]" "well_formed a" "\<forall>v\<in>set (data a). v = 0"
    and b: "shape b = [k, n]"
  shows "dot a b = Inr (zeros [m, n])"
proof -
  have cell: "(\<Sum>l\<leftarrow>[0..<k]. data a ! (i * k + l) * data b ! (l * n + j)) = 0" if "i < m" for i j
  proof (rule sum_list_all_zero, rule ballI)
    fix l assume "l \<in> set [0..<k]"
    then have "i * k + l < m * k" using that index_in_grid [of i m l k] by simp
    then have "data a ! (i * k + l) = 0" using nth_zero [OF a(2,3)] a(1) by simp
    then show "data a ! (i * k + l) * data b ! (l * n + j) = 0" by simp
  qed
  have row: "map (\<lambda>j. \<Sum>l\<leftarrow>[0..<k]. data a ! (i * k + l) * data b ! (l * n + j)) [0..<n] = replicate n 0"
    if "i < m" for i
    by (rule map_upt_const) (rule cell [OF that])
  have "map (\<lambda>i. map (\<lambda>j. \<Sum>l\<leftarrow>[0..<k]. data a ! (i * k + l) * data b ! (l * n + j)) [0..<n]) [0..<m]
      = replicate m (replicate n 0)"
    by (rule map_upt_const) (rule row)
  then show ?thesis
    using a(1) b by (simp add: dot_def zeros_def concat_replicate_replicate)
qed

lemma dot_zero_vector:
  assumes a: "shape a = [m, k]" "well_formed a" "\<forall>v\<in>set (data a). v = 0"
    and b: "shape b = [k]"
  shows "dot a b = Inr (zeros [m])"
proof -
  have cell: "(\<Sum>l\<leftarrow>[0..<k]. data a ! (i * k + l) * data b ! l) = 0" if "i < m" for i
  proof (rule sum_list_all_zero, rule ballI)
    fix l assume "l \<in> set [0..<k]"
    then have "i * k + l < m * k" using that index_in_grid [of i m l k] by simp
    then have "data a ! (i * k + l) = 0" using nth_zero [OF a(2,3)] a(1) by simp
    then show "data a ! (i * k + l) * data b ! l = 0" by simp
  qed
  have "map (\<lambda>i. \<Sum>l\<leftarrow>[0..<k]. data a ! (i * k + l) * data b ! l) [0..<m] = replicate m 0"
    by (rule map_upt_const) (rule cell)
  then show ?thesis
    using a(1) b by (simp add: dot_def zeros_def)
qed

lemma zeros_all_zero: "\<forall>v\<in>set (data (zeros s)). v = 0"
  by (simp add: zeros_def)

lemma elementwise_tanh_zeros: "elementwise tanh (zeros s) = zeros s"
  by (simp add: elementwise_def zeros_def)

lemma act_out_zero_input:
  assumes "weights_shaped n_in w"
  shows "act_out w (zeros [rows, n_in]) = Inr \<lparr>shape = [rows], data = replicate rows (1 / 2)\<rparr>"
proof -
  from assms have w: "shape (w_in_1 w) = [n_in, n_hidden]"
    "shape (w_1_2 w) = [n_hidden, n_hidden]" "shape (w_2_out w) = [n_hidden]"
    by (simp_all add: weights_shaped_def)
  have z1: "dot (zeros [rows, n_in]) (w_in_1 w) = Inr (zeros [rows, n_hidden])"
    by (rule dot_zero_matrix) (simp_all add: well_formed_zeros zeros_all_zero w)
  have z2: "dot (zeros [rows, n_hidden]) (w_1_2 w) = Inr (zeros [rows, n_hidden])"
    by (rule dot_zero_matrix) (simp_all add: well_formed_zeros zeros_all_zero w)
  have z3: "dot (zeros [rows, n_hidden]) (w_2_out w) = Inr (zeros [rows])"
    by (rule dot_zero_vector) (simp_all add: well_formed_zeros zeros_all_zero w)
  have "elementwise sigmoid (zeros [rows]) = \<lparr>shape = [rows], data = replicate rows (1 / 2)\<rparr>"
    by (simp add: elementwise_def zeros_def sigmoid_def)
  then show ?thesis
    by (simp add: act_out_def act_2_def act_1_def z1 z2 z3 elementwise_tanh_zeros)
qed

lemma zero_input_labels:
  assumes w: "\<forall>i. weights_shaped n_in (draws approx i)" and pos: "0 < rows"
    and p: "predict approx (zeros [rows, n_in]) = Inr (labels, approx')"
  shows "data labels = replicate rows False"
proof -
  have x: "shape (zeros [rows, n_in]) = [rows, n_in]" by simp
  from predict_value [OF x pos w] obtain probs labels' approx'' where
    r: "sample_proba approx (zeros [rows, n_in]) 500 = Inr (probs, approx'')" "shape probs = [500, rows]"
      "predict approx (zeros [rows, n_in]) = Inr (labels', approx'')"
      "shape labels' = [rows]" "length (data labels') = rows"
      "\<forall>j<rows. data labels' ! j \<longleftrightarrow> 1 / 2 < (\<Sum>i\<leftarrow>[0..<500]. data probs ! (i * rows + j)) / 500"
      "\<forall>i<500. \<exists>q. act_out (draws approx (consumed approx + i)) (zeros [rows, n_in]) = Inr q
             \<and> (\<forall>j<rows. data probs ! (i * rows + j) = data q ! j)"
    by blast
  from p r(3) have eq: "labels' = labels" by simp
  note len = r(5) [unfolded eq] and lab = r(6) [unfolded eq] and each = r(7)
  have half: "data probs ! (i * rows + j) = 1 / 2" if "i < 500" "j < rows" for i j
  proof -
    from each that(1) obtain q where
      q: "act_out (draws approx (consumed approx + i)) (zeros [rows, n_in]) = Inr q"
        "\<forall>j<rows. data probs ! (i * rows + j) = data q ! j"
      by blast
    from w have "weights_shaped n_in (draws approx (consumed approx + i))" by blast
    from act_out_zero_input [OF this, of rows] q(1) have "data q = replicate rows (1 / 2)" by simp
    with q(2) that(2) show ?thesis by simp
  qed
  have "\<not> data labels ! j" if "j < rows" for j
  proof -
    have "map (\<lambda>i. data probs ! (i * rows + j)) [0..<500] = replicate 500 (1 / 2)"
      by (rule map_upt_const) (rule half [OF _ that])
    then have "(\<Sum>i\<leftarrow>[0..<500]. data probs ! (i * rows + j)) / 500 = 1 / 2"
      by (simp add: sum_list_replicate)
    with lab that show ?thesis by simp
  qed
  with len show ?thesis by (intro nth_equalityI) simp_all
qed

lemma zero_labels_accuracy:
  assumes "shape labels = [rows]" "data labels = replicate rows False" "0 < rows"
  shows "accuracy (zeros [rows]) labels = Inr (Some 100)"
proof -
  have "{j. j < rows \<and> data (zeros [rows]) ! j = of_bool (data labels ! j)} = {..<rows}"
    using assms(2) by (auto simp: zeros_def)
  then show ?thesis
    using accuracy_value [of "zeros [rows]" rows labels] assms by simp
qed

subsection \<open>Runs\<close>

lemma then_op_Inr: "m s = (Inr v, s') \<Longrightarrow> then_op m f s = f v s'"
  by (simp add: then_op_def)

lemma then_op_Inl: "m s = (Inl e, s') \<Longrightarrow> then_op m f s = (Inl e, s')"
  by (simp add: then_op_def)

lemma then_op_Inr_iff:
  "then_op m f s = (Inr v, s') \<longleftrightarrow> (\<exists>u s1. m s = (Inr u, s1) \<and> f u s1 = (Inr v, s'))"
  by (auto simp: then_op_def split: prod.splits sum.splits)

lemma array_op_Inr_iff:
  "array_op what r s = (Inr v, s') \<longleftrightarrow> r = Inr v \<and> s' = (fst s, snd s @ [(Array, what, None)])"
  by (cases s) (auto simp: array_op_def outcome_def)

lemma with_context_Inr:
  assumes "with_context lib block s = (Inr v, s')"
  shows "\<exists>s1 s2. block s1 = (Inr v, s2)"
proof -
  from assms obtain s1 where
    leave: "(case block s1 of
         (Inr v, s') \<Rightarrow>
           then_op (library_call ''__exit__'' (exit_context lib None)) (\<lambda>_. done_op v) s'
       | (Inl e, s') \<Rightarrow>
           then_op (library_call ''__exit__'' (exit_context lib (Some e)))
             (\<lambda>suppress s''. (Inl (if suppress then NotModelled else e), s'')) s') = (Inr v, s')"
    by (auto simp: with_context_def then_op_Inr_iff)
  obtain r s2 where b: "block s1 = (r, s2)" by (cases "block s1")
  show ?thesis
  proof (cases r)
    case (Inl e)
    with leave b show ?thesis by (simp add: then_op_Inr_iff)
  next
    case (Inr u)
    with leave b have "u = v" by (auto simp: then_op_Inr_iff done_op_def)
    with b Inr show ?thesis by blast
  qed
qed

text \<open>A model block that completes has declared the model that \<open>neural_network\<close> describes.\<close>

lemma model_block_declares:
  assumes "model_block lib X y_train init_1 init_2 init_out s = (Inr m, s')"
  shows "neural_network X y_train y_train init_1 init_2 init_out = Inr m"
  using assms
  by (auto simp: model_block_def then_op_Inr_iff array_op_Inr_iff done_op_def neural_network_def
      weight_variable_def out_variable_def)

lemma model_cell_declares:
  assumes "model_cell lib X y_train init_1 init_2 init_out s = (Inr m, s')"
  shows "neural_network X y_train y_train init_1 init_2 init_out = Inr m"
proof -
  from assms obtain s1 where
    "with_context lib (model_block lib X y_train init_1 init_2 init_out) s1 = (Inr m, s')"
    by (auto simp: model_cell_def then_op_Inr_iff)
  from with_context_Inr [OF this] model_block_declares show ?thesis by blast
qed

subsection \<open>The order of the operations\<close>

text \<open>
  Every operation follows the sequence of its parts: a call or an array operation
  itself, two statements one after the other their two sequences, a \<^verbatim>\<open>with\<close>
  statement the entry, the block and the exit.
\<close>

lemma clean_Nil [simp]: "clean []"
  by (simp add: clean_def)

lemma clean_Cons [simp]: "clean ((k, what, out) # l) \<longleftrightarrow> out = None \<and> clean l"
  by (auto simp: clean_def)

lemma clean_append [simp]: "clean (a @ b) \<longleftrightarrow> clean a \<and> clean b"
  by (auto simp: clean_def)

lemma executed_Nil [simp]: "executed [] = []"
  by (simp add: executed_def)

lemma executed_Cons [simp]: "executed ((k, what, out) # l) = (k, what) # executed l"
  by (simp add: executed_def)

lemma executed_append [simp]: "executed (a @ b) = executed a @ executed b"
  by (simp add: executed_def)

lemma exits_Nil [simp]: "exits []"
  by (simp add: exits_def)

lemma exits_append [simp]: "exits (a @ b) \<longleftrightarrow> exits a \<and> exits b"
  by (simp add: exits_def ball_Un)

lemma exits_exit [simp]: "exits [(Library, ''__exit__'', None)]"
  by (simp add: exits_def)

lemma trace_Inr [simp]: "trace (Inr v) l ops \<longleftrightarrow> clean l \<and> executed l = ops"
  by (simp add: trace_def)

lemma trace_InlI:
  "l = pre @ [(k, what, Some e)] @ post \<Longrightarrow> clean pre \<Longrightarrow> exits post
     \<Longrightarrow> ops = executed pre @ [(k, what)] @ rest \<Longrightarrow> trace (Inl e) l ops"
  unfolding trace_def by (simp only: sum.case) blast

lemma trace_InlE:
  assumes "trace (Inl e) l ops"
  obtains pre k what post rest where "l = pre @ [(k, what, Some e)] @ post" "clean pre" "exits post"
    "ops = executed pre @ [(k, what)] @ rest"
  using assms unfolding trace_def by (simp only: sum.case) blast

lemma followsI:
  assumes "\<And>w l r w' l'. m (w, l) = (r, w', l') \<Longrightarrow> \<exists>new. l' = l @ new \<and> trace r new ops"
  shows "follows m ops"
  unfolding follows_def
proof (intro allI)
  fix w l
  obtain r w' l' where m: "m (w, l) = (r, w', l')" by (cases "m (w, l)") auto
  from assms [OF m] show "\<exists>new. snd (snd (m (w, l))) = l @ new \<and> trace (fst (m (w, l))) new ops"
    by (simp add: m)
qed

lemma followsD:
  assumes "follows m ops" and "m (w, l) = (r, w', l')"
  obtains new where "l' = l @ new" "trace r new ops"
proof -
  from assms(1) have "\<exists>new. snd (snd (m (w, l))) = l @ new \<and> trace (fst (m (w, l))) new ops"
    unfolding follows_def by blast
  with assms(2) that show ?thesis by auto
qed

lemma follows_library_call: "follows (library_call what f) [(Library, what)]"
proof (rule followsI)
  fix w l r w' l'
  assume run: "library_call what f (w, l) = (r, w', l')"
  then have l': "l' = l @ [(Library, what, outcome r)]"
    by (auto simp: library_call_def split: prod.splits)
  show "\<exists>new. l' = l @ new \<and> trace r new [(Library, what)]"
  proof (cases r)
    case (Inl e)
    have "trace (Inl e) [(Library, what, Some e)] [(Library, what)]"
      by (rule trace_InlI [of _ "[]" Library what e "[]" _ "[]"]) simp_all
    with l' Inl show ?thesis by (simp add: outcome_def)
  next
    case (Inr v)
    with l' show ?thesis by (simp add: outcome_def)
  qed
qed

lemma follows_array_op: "follows (array_op what r) [(Array, what)]"
proof (rule followsI)
  fix w l r' w' l'
  assume run: "array_op what r (w, l) = (r', w', l')"
  then have l': "l' = l @ [(Array, what, outcome r)]" and r': "r' = r"
    by (auto simp: array_op_def)
  show "\<exists>new. l' = l @ new \<and> trace r' new [(Array, what)]"
  proof (cases r)
    case (Inl e)
    have "trace (Inl e) [(Array, what, Some e)] [(Array, what)]"
      by (rule trace_InlI [of _ "[]" Array what e "[]" _ "[]"]) simp_all
    with l' r' Inl show ?thesis by (simp add: outcome_def)
  next
    case (Inr v)
    with l' r' show ?thesis by (simp add: outcome_def)
  qed
qed

lemma follows_done_op: "follows (done_op v) []"
  by (rule followsI) (simp add: done_op_def)

lemma follows_then_op:
  assumes m: "follows m a" and f: "\<And>v. follows (f v) b"
  shows "follows (then_op m f) (a @ b)"
proof (rule followsI)
  fix w l r w' l'
  assume run: "then_op m f (w, l) = (r, w', l')"
  obtain r1 w1 l1 where m1: "m (w, l) = (r1, w1, l1)" by (cases "m (w, l)") auto
  from followsD [OF m m1] obtain new1 where n1: "l1 = l @ new1" "trace r1 new1 a" by blast
  define ops where "ops = a @ b"
  have ops: "a @ b = ops" by (simp add: ops_def)
  have "\<exists>new. l' = l @ new \<and> trace r new ops"
  proof (cases r1)
    case (Inl e)
    with run m1 have eq: "r = Inl e" "l' = l1" by (simp_all add: then_op_def)
    from n1(2) Inl obtain pre k what post rest where
      t: "new1 = pre @ [(k, what, Some e)] @ post" "clean pre" "exits post"
        "a = executed pre @ [(k, what)] @ rest"
      by (auto elim: trace_InlE)
    have "trace (Inl e) new1 ops"
      by (rule trace_InlI [OF t(1,2,3), of _ "rest @ b"]) (simp add: ops [symmetric] t(4))
    with eq n1(1) show ?thesis by blast
  next
    case (Inr v)
    with run m1 have f1: "f v (w1, l1) = (r, w', l')" by (simp add: then_op_def)
    from followsD [OF f f1] obtain new2 where n2: "l' = l1 @ new2" "trace r new2 b" by blast
    from n1(2) Inr have c1: "clean new1" "executed new1 = a" by simp_all
    have "trace r (new1 @ new2) ops"
    proof (cases r)
      case (Inl e)
      with n2(2) obtain pre k what post rest where
        t: "new2 = pre @ [(k, what, Some e)] @ post" "clean pre" "exits post"
          "b = executed pre @ [(k, what)] @ rest"
        by (auto elim: trace_InlE)
      have "trace (Inl e) (new1 @ new2) ops"
        by (rule trace_InlI [of _ "new1 @ pre" k what e post _ rest])
          (simp_all add: t c1 ops [symmetric])
      with Inl show ?thesis by simp
    next
      case (Inr u)
      with n2(2) c1 show ?thesis by (simp add: ops [symmetric])
    qed
    with n1(1) n2(1) show ?thesis by simp
  qed
  then show "\<exists>new. l' = l @ new \<and> trace r new (a @ b)" by (simp add: ops_def)
qed

lemma follows_eq: "follows m a \<Longrightarrow> a = ops \<Longrightarrow> follows m ops"
  by simp

lemma follows_case_prod:
  assumes "\<And>a b. follows (f a b) ops"
  shows "follows (case p of (a, b) \<Rightarrow> f a b) ops"
  using assms by (cases p) simp

lemma follows_call_other: "follows (call_other lib what) [(Library, what)]"
  by (simp add: call_other_def follows_library_call)

lemma follows_call_plot: "follows (call_plot lib what args) [(Library, what)]"
  by (simp add: call_plot_def follows_library_call)

lemma follows_with_context:
  assumes pass: "exits_pass lib" and block: "follows block a"
  shows "follows (with_context lib block) ((Library, ''__enter__'') # a @ [(Library, ''__exit__'')])"
proof -
  let ?leave = "\<lambda>s. case block s of
         (Inr v, s') \<Rightarrow>
           then_op (library_call ''__exit__'' (exit_context lib None)) (\<lambda>_. done_op v) s'
       | (Inl e, s') \<Rightarrow>
           then_op (library_call ''__exit__'' (exit_context lib (Some e)))
             (\<lambda>suppress s''. (Inl (if suppress then NotModelled else e), s'')) s'"
  have leave: "follows ?leave (a @ [(Library, ''__exit__'')])"
  proof (rule followsI)
    fix w l r w' l'
    assume run: "?leave (w, l) = (r, w', l')"
    obtain r1 w1 l1 where b1: "block (w, l) = (r1, w1, l1)" by (cases "block (w, l)") auto
    from followsD [OF block b1] obtain new1 where n1: "l1 = l @ new1" "trace r1 new1 a" by blast
    show "\<exists>new. l' = l @ new \<and> trace r new (a @ [(Library, ''__exit__'')])"
    proof (cases r1)
      case (Inr v)
      have "follows (then_op (library_call ''__exit__'' (exit_context lib None)) (\<lambda>_. done_op v))
              [(Library, ''__exit__'')]"
        using follows_then_op [OF follows_library_call follows_done_op] by simp
      moreover from run b1 Inr
      have "then_op (library_call ''__exit__'' (exit_context lib None)) (\<lambda>_. done_op v) (w1, l1)
              = (r, w', l')" by simp
      ultimately obtain new2 where n2: "l' = l1 @ new2" "trace r new2 [(Library, ''__exit__'')]"
        by (rule followsD)
      from n1(2) Inr have c1: "clean new1" "executed new1 = a" by simp_all
      have "trace r (new1 @ new2) (a @ [(Library, ''__exit__'')])"
      proof (cases r)
        case (Inl e)
        with n2(2) obtain pre k what post rest where
          t: "new2 = pre @ [(k, what, Some e)] @ post" "clean pre" "exits post"
            "[(Library, ''__exit__'')] = executed pre @ [(k, what)] @ rest"
          by (auto elim: trace_InlE)
        have "trace (Inl e) (new1 @ new2) (a @ [(Library, ''__exit__'')])"
          by (rule trace_InlI [of _ "new1 @ pre" k what e post _ rest])
            (use t c1 in simp_all)
        with Inl show ?thesis by simp
      next
        case (Inr u)
        with n2(2) c1 show ?thesis by simp
      qed
      with n1(1) n2(1) show ?thesis by simp
    next
      case (Inl e)
      obtain x w2 where x: "exit_context lib (Some e) w1 = (x, w2)"
        by (cases "exit_context lib (Some e) w1") auto
      from pass have "fst (exit_context lib (Some e) w1) = Inr False"
        unfolding exits_pass_def by blast
      with x have x': "x = Inr False" by simp
      from run b1 Inl x x' have r: "r = Inl e" and l': "l' = l1 @ [(Library, ''__exit__'', None)]"
        by (simp_all add: then_op_def library_call_def outcome_def)
      from n1(2) Inl obtain pre k what post rest where
        t: "new1 = pre @ [(k, what, Some e)] @ post" "clean pre" "exits post"
          "a = executed pre @ [(k, what)] @ rest"
        by (auto elim: trace_InlE)
      have "trace (Inl e) (new1 @ [(Library, ''__exit__'', None)]) (a @ [(Library, ''__exit__'')])"
        by (rule trace_InlI [of _ pre k what e "post @ [(Library, ''__exit__'', None)]" _
              "rest @ [(Library, ''__exit__'')]"])
          (simp_all add: t)
      with r l' n1(1) show ?thesis by simp
    qed
  qed
  have "follows (then_op (call_other lib ''__enter__'') (\<lambda>_. ?leave))
          ((Library, ''__enter__'') # a @ [(Library, ''__exit__'')])"
    using follows_then_op [OF follows_call_other leave] by simp
  then show ?thesis by (simp add: with_context_def)
qed

lemmas follows_intros =
  follows_then_op follows_case_prod follows_call_other follows_call_plot
  follows_library_call follows_array_op follows_done_op

lemma follows_scatter_classes: "follows (scatter_classes lib a is_0 is_1) scatter_operations"
  unfolding scatter_classes_def
  by (rule follows_eq, (rule follows_intros)+) (simp add: scatter_operations_def)

lemma follows_contour_plot:
  "follows (contour_plot lib palette reduce grid ppc X_test pred) (contour_operations palette)"
  unfolding contour_plot_def
  by (rule follows_eq, (rule follows_intros follows_scatter_classes)+)
    (simp add: contour_operations_def)

lemma follows_imports_cell: "follows (imports_cell lib) imports_operations"
  unfolding imports_cell_def
  by (rule follows_eq, (rule follows_intros)+) (simp add: imports_operations_def)

lemma follows_dataset_cell:
  "follows (dataset_cell lib)
     ([(Library, ''datasets.make_moons''), (Library, ''scale''), (Library, ''plt.subplots'')]
      @ scatter_operations
      @ [(Library, ''sns.despine''), (Library, ''ax.legend''), (Library, ''ax.set'')])"
  unfolding dataset_cell_def
  by (rule follows_eq, (rule follows_intros follows_scatter_classes)+) simp

lemma follows_split_cell:
  "follows (split_cell lib X y)
     [(Library, ''X.astype''), (Library, ''y.astype''),
      (Library, ''train_test_split''), (Library, ''theano.shared''), (Library, ''theano.shared'')]"
  unfolding split_cell_def
  by (rule follows_eq, (rule follows_intros)+) simp

lemma follows_init_cell:
  "follows (init_cell lib X)
     [(Array, ''X.shape[1]''), (Library, ''np.random.randn''), (Library, ''astype''),
      (Library, ''np.random.randn''), (Library, ''astype''),
      (Library, ''np.random.randn''), (Library, ''astype'')]"
  unfolding init_cell_def
  by (rule follows_eq, (rule follows_intros)+) simp

lemma follows_model_block:
  "follows (model_block lib X y_train init_1 init_2 init_out)
     [(Array, ''X.shape[1]''), (Library, ''pm.Normal''), (Library, ''pm.Normal''),
      (Library, ''pm.Normal''), (Library, ''pm.math.dot''), (Library, ''pm.math.tanh''),
      (Library, ''pm.math.dot''), (Library, ''pm.math.tanh''), (Library, ''pm.math.dot''),
      (Library, ''pm.math.sigmoid''), (Array, ''y_train.shape[0]''), (Library, ''pm.Bernoulli'')]"
  unfolding model_block_def
  by (rule follows_eq, (rule follows_intros)+) simp

lemma follows_model_cell:
  assumes "exits_pass lib"
  shows "follows (model_cell lib X y_train init_1 init_2 init_out)
     [(Library, ''pm.Model''), (Library, ''__enter__''),
      (Array, ''X.shape[1]''), (Library, ''pm.Normal''), (Library, ''pm.Normal''),
      (Library, ''pm.Normal''), (Library, ''pm.math.dot''), (Library, ''pm.math.tanh''),
      (Library, ''pm.math.dot''), (Library, ''pm.math.tanh''), (Library, ''pm.math.dot''),
      (Library, ''pm.math.sigmoid''), (Array, ''y_train.shape[0]''), (Library, ''pm.Bernoulli''),
      (Library, ''__exit__'')]"
  unfolding model_cell_def
  by (rule follows_eq, (rule follows_intros follows_with_context assms follows_model_block)+) simp

lemma follows_fit_cell:
  assumes "exits_pass lib"
  shows "follows (fit_cell lib m)
     [(Library, ''__enter__''), (Library, ''pm.fit''), (Library, ''__exit__'')]"
  unfolding fit_cell_def
  by (rule follows_eq, (rule follows_intros follows_with_context assms)+) simp

lemma follows_objective_cell:
  "follows (objective_cell lib)
     [(Library, ''-approx.hist''), (Library, ''plt.plot''), (Library, ''plt.legend''),
      (Library, ''plt.ylabel''), (Library, ''plt.xlabel'')]"
  unfolding objective_cell_def
  by (rule follows_eq, (rule follows_intros)+) simp

lemma follows_compile_cell:
  "follows (compile_cell lib X_train)
     [(Library, ''tt.matrix''), (Library, ''tt.iscalar''), (Array, ''X_train[:10]''),
      (Library, ''np.empty_like''), (Library, ''x.tag.test_value''),
      (Library, ''n.tag.test_value''), (Library, ''neural_network.out.distribution.p''),
      (Library, ''approx.sample_node''), (Library, ''theano.function'')]"
  unfolding compile_cell_def
  by (rule follows_eq, (rule follows_intros)+) simp

lemma follows_training:
  assumes "exits_pass lib"
  shows "follows (training lib X X_train y_train) training_operations"
  unfolding training_def
  by (rule follows_eq,
      (rule follows_intros follows_init_cell follows_model_cell follows_fit_cell
         follows_objective_cell follows_compile_cell assms)+)
    (simp add: training_operations_def)

lemma follows_accuracy_cell:
  "follows (accuracy_cell lib y_test pred)
     [(Array, ''(y_test == pred).mean() * 100''), (Library, ''print'')]"
  unfolding accuracy_cell_def
  by (rule follows_eq, (rule follows_intros)+) simp

lemma follows_labels_cell:
  "follows (labels_cell lib X_test pred)
     ([(Library, ''plt.subplots'')] @ scatter_operations
      @ [(Library, ''sns.despine''), (Library, ''ax.set'')])"
  unfolding labels_cell_def
  by (rule follows_eq, (rule follows_intros follows_scatter_classes)+) simp

lemma follows_up_to_prediction:
  assumes "exits_pass lib"
  shows "follows (up_to_prediction lib)
     (imports_operations
      @ [(Library, ''datasets.make_moons''), (Library, ''scale''), (Library, ''plt.subplots'')]
      @ scatter_operations
      @ [(Library, ''sns.despine''), (Library, ''ax.legend''), (Library, ''ax.set''),
         (Library, ''X.astype''), (Library, ''y.astype''),
         (Library, ''train_test_split''), (Library, ''theano.shared''), (Library, ''theano.shared'')]
      @ training_operations
      @ [(Array, ''sample_proba(X_test, 500).mean(0) > 0.5'')])"
  unfolding up_to_prediction_def
  by (rule follows_eq,
      (rule follows_intros follows_imports_cell follows_dataset_cell follows_split_cell
         follows_training assms)+)
    simp

lemma follows_after_prediction:
  "follows (after_prediction lib X_test y_test pred approx)
     ([(Array, ''(y_test == pred).mean() * 100''), (Library, ''print''),
       (Library, ''plt.subplots'')]
      @ scatter_operations
      @ [(Library, ''sns.despine''), (Library, ''ax.set''), (Library, ''pm.floatX''),
         (Array, ''grid, grid_2d, dummy_out''), (Array, ''sample_proba(grid_2d, 500)'')]
      @ contour_operations ''sns.diverging_palette''
      @ contour_operations ''sns.cubehelix_palette'')"
  unfolding after_prediction_def
  by (rule follows_eq,
      (rule follows_intros follows_accuracy_cell follows_labels_cell follows_contour_plot)+)
    simp

lemma follows_notebook:
  assumes "exits_pass lib"
  shows "follows (notebook lib) operations"
  unfolding notebook_def
  by (rule follows_eq,
      (rule follows_intros follows_up_to_prediction follows_after_prediction assms)+)
    (simp add: operations_def)

subsection \<open>Runs that complete\<close>

text \<open>
  With a library that delivers, every cell completes, and so does the notebook.
\<close>


lemma completesD:
  assumes "completes m Q"
  obtains v s' where "m s = (Inr v, s')" "Q v"
  using assms unfolding completes_def by blast

lemma completes_library_call:
  assumes "\<And>w. \<exists>v w'. f w = (Inr v, w') \<and> Q v"
  shows "completes (library_call what f) Q"
proof -
  have "\<exists>v s'. library_call what f (w, l) = (Inr v, s') \<and> Q v" for w l
  proof -
    from assms [of w] obtain v w' where "f w = (Inr v, w')" "Q v" by blast
    then show ?thesis by (simp add: library_call_def)
  qed
  then show ?thesis by (simp add: completes_def)
qed

lemma completes_array_op:
  assumes "\<exists>v. r = Inr v \<and> Q v"
  shows "completes (array_op what r :: ('a, 'w) op) Q"
proof -
  from assms obtain v where "r = Inr v" "Q v" by blast
  then have "\<exists>v s'. array_op what r (w, l) = (Inr v, s') \<and> Q v" for w :: 'w and l
    by (simp add: array_op_def)
  then show ?thesis by (simp add: completes_def)
qed

lemma completes_done_op: "Q v \<Longrightarrow> completes (done_op v) Q"
  by (simp add: completes_def done_op_def)

lemma completes_then_op:
  assumes m: "completes m P" and f: "\<And>v. P v \<Longrightarrow> completes (f v) Q"
  shows "completes (then_op m f) Q"
  unfolding completes_def
proof
  fix s
  from m obtain u s1 where u: "m s = (Inr u, s1)" "P u" by (rule completesD)
  from f [OF u(2)] obtain v s2 where v: "f u s1 = (Inr v, s2)" "Q v" by (rule completesD)
  from u(1) v show "\<exists>v s'. then_op m f s = (Inr v, s') \<and> Q v"
    by (simp add: then_op_def)
qed

lemma completes_then:
  assumes "completes m (\<lambda>_. True)" and "\<And>v. completes (f v) Q"
  shows "completes (then_op m f) Q"
  using assms by (rule completes_then_op)

lemma completes_case_prod:
  assumes "\<And>a b. completes (f a b) Q"
  shows "completes (case p of (a, b) \<Rightarrow> f a b) Q"
  using assms by (cases p) simp

lemma delivers_other: "delivers lib \<Longrightarrow> \<exists>w'. other lib what w = (Inr (), w')"
  by (simp add: delivers_def)

lemma delivers_plot: "delivers lib \<Longrightarrow> \<exists>w'. plot lib what args w = (Inr (), w')"
  by (simp add: delivers_def)

lemma delivers_print: "delivers lib \<Longrightarrow> \<exists>w'. print lib v w = (Inr (), w')"
  by (simp add: delivers_def)

lemma delivers_register: "delivers lib \<Longrightarrow> \<exists>w'. register lib v w = (Inr (), w')"
  by (simp add: delivers_def)

lemma delivers_exit: "delivers lib \<Longrightarrow> \<exists>b w'. exit_context lib None w = (Inr b, w')"
  by (simp add: delivers_def)

lemma delivers_make_moons:
  "delivers lib \<Longrightarrow> \<exists>X y w'. make_moons lib noise n w = (Inr (X, y), w')
           \<and> shape X = [n, 2] \<and> shape y = [n]"
  by (simp add: delivers_def)

lemma delivers_scale:
  "delivers lib \<Longrightarrow> \<exists>X' w'. scale lib X w = (Inr X', w') \<and> shape X' = shape X"
  by (simp add: delivers_def)

lemma delivers_split:
  "delivers lib \<Longrightarrow> \<exists>X_train X_test y_train y_test n_train n_test w'.
           train_test_split lib X y test_size w = (Inr (X_train, X_test, y_train, y_test), w')
           \<and> shape X_train = [n_train, 2] \<and> shape y_train = [n_train]
           \<and> shape X_test = [n_test, 2] \<and> shape y_test = [n_test] \<and> well_formed y_test
           \<and> 0 < n_test"
  by (simp add: delivers_def)

lemma delivers_randn: "delivers lib \<Longrightarrow> \<exists>a w'. randn lib s w = (Inr a, w')"
  by (simp add: delivers_def)

lemma delivers_fit:
  "delivers lib \<Longrightarrow> \<exists>a w'. fit lib m n w = (Inr a, w') \<and> (\<forall>i. weights_shaped 2 (draws a i))"
  by (simp add: delivers_def)

lemma delivers_sample:
  "delivers lib \<Longrightarrow> \<exists>a' w'. sample lib a n w = (Inr a', w')
           \<and> ((\<forall>i. weights_shaped 2 (draws a i)) \<longrightarrow> (\<forall>i. weights_shaped 2 (draws a' i)))"
  by (simp add: delivers_def)

lemma completes_call_other: "delivers lib \<Longrightarrow> completes (call_other lib what) (\<lambda>_. True)"
  unfolding call_other_def using delivers_other [of lib what]
  by (intro completes_library_call) auto

lemma completes_call_plot: "delivers lib \<Longrightarrow> completes (call_plot lib what args) (\<lambda>_. True)"
  unfolding call_plot_def using delivers_plot [of lib what args]
  by (intro completes_library_call) auto

lemma completes_print: "delivers lib \<Longrightarrow> completes (library_call what (print lib v)) (\<lambda>_. True)"
  using delivers_print [of lib v] by (intro completes_library_call) auto

lemma completes_register:
  "delivers lib \<Longrightarrow> completes (library_call what (register lib v)) (\<lambda>_. True)"
  using delivers_register [of lib v] by (intro completes_library_call) auto

lemma completes_randn:
  "delivers lib \<Longrightarrow> completes (library_call what (randn lib s)) (\<lambda>_. True)"
  using delivers_randn [of lib s] by (intro completes_library_call) auto

lemma completes_with_context:
  assumes d: "delivers lib" and block: "completes block Q"
  shows "completes (with_context lib block) Q"
  unfolding completes_def
proof
  fix s
  from completes_call_other [OF d] obtain u s1 where
    enter: "call_other lib ''__enter__'' s = (Inr u, s1)" by (rule completesD)
  from block obtain v s2 where b: "block s1 = (Inr v, s2)" "Q v" by (rule completesD)
  obtain w2 l2 where s2: "s2 = (w2, l2)" by (cases s2)
  from delivers_exit [OF d, of w2] obtain x w3 where x: "exit_context lib None w2 = (Inr x, w3)"
    by blast
  have "with_context lib block s = (Inr v, w3, l2 @ [(Library, ''__exit__'', None)])"
    by (simp add: with_context_def then_op_def enter b s2 library_call_def x outcome_def done_op_def)
  with b(2) show "\<exists>v s'. with_context lib block s = (Inr v, s') \<and> Q v" by blast
qed

lemma completes_scatter_classes:
  assumes d: "delivers lib"
    and a: "shape a = [n, 2]" and m0: "shape is_0 = [n]" and m1: "shape is_1 = [n]"
  shows "completes (scatter_classes lib a is_0 is_1) (\<lambda>_. True)"
proof -
  have le: "(2::nat) \<le> 2" by simp
  have p0: "completes (array_op what (scatter_points a is_0)) (\<lambda>_. True)" for what
    using scatter_points_total [OF a m0 le] by (intro completes_array_op) auto
  have p1: "completes (array_op what (scatter_points a is_1)) (\<lambda>_. True)" for what
    using scatter_points_total [OF a m1 le] by (intro completes_array_op) auto
  show ?thesis
    unfolding scatter_classes_def
    by (rule completes_then p0 p1 completes_case_prod completes_call_plot d)+
qed

lemma completes_imports_cell: "delivers lib \<Longrightarrow> completes (imports_cell lib) (\<lambda>_. True)"
  unfolding imports_cell_def
  by (rule completes_then completes_call_other | assumption)+

lemma completes_make_moons:
  "delivers lib \<Longrightarrow>
     completes (library_call what (make_moons lib noise n)) (\<lambda>(X, y). shape X = [n, 2] \<and> shape y = [n])"
  using delivers_make_moons [of lib noise n] by (intro completes_library_call) auto

lemma completes_scale:
  "delivers lib \<Longrightarrow> shape X = s \<Longrightarrow> completes (library_call what (scale lib X)) (\<lambda>X'. shape X' = s)"
  using delivers_scale [of lib X] by (intro completes_library_call) auto

lemma completes_train_test_split:
  "delivers lib \<Longrightarrow>
     completes (library_call what (train_test_split lib X y test_size))
       (\<lambda>(X_train, X_test, y_train, y_test). \<exists>n_train n_test.
           shape X_train = [n_train, 2] \<and> shape y_train = [n_train]
           \<and> shape X_test = [n_test, 2] \<and> shape y_test = [n_test] \<and> well_formed y_test
           \<and> 0 < n_test)"
  using delivers_split [of lib X y test_size] by (intro completes_library_call) fastforce

lemma completes_fit:
  "delivers lib \<Longrightarrow>
     completes (library_call what (fit lib m n)) (\<lambda>a. \<forall>i. weights_shaped 2 (draws a i))"
  using delivers_fit [of lib m n] by (intro completes_library_call) auto

lemma completes_sample:
  "delivers lib \<Longrightarrow> \<forall>i. weights_shaped 2 (draws a i) \<Longrightarrow>
     completes (library_call what (sample lib a n)) (\<lambda>a'. \<forall>i. weights_shaped 2 (draws a' i))"
  using delivers_sample [of lib a n] by (intro completes_library_call) auto

lemma completes_dim:
  "i < length (shape a) \<Longrightarrow> completes (array_op what (dim a i)) (\<lambda>_. True)"
  by (rule completes_array_op) (simp add: dim_def)

lemma completes_first_items:
  "shape a = [n, c] \<Longrightarrow> completes (array_op what (first_items a k)) (\<lambda>_. True)"
  by (rule completes_array_op) (simp add: first_items_def)

lemma completes_dataset_cell:
  assumes d: "delivers lib"
  shows "completes (dataset_cell lib) (\<lambda>(X, y). shape X = [1000, 2])"
  unfolding dataset_cell_def
  apply (rule completes_then_op [OF completes_make_moons [OF d]])
  apply (clarsimp simp del: One_nat_def)
  apply (rule completes_then_op [OF completes_scale [OF d]], assumption)
  apply (rule completes_then completes_call_other d completes_scatter_classes completes_done_op
      | simp)+
  done

lemma completes_split_cell:
  assumes d: "delivers lib"
  shows "completes (split_cell lib X y)
       (\<lambda>(X_train, X_test, y_train, y_test). \<exists>n_train n_test.
           shape X_train = [n_train, 2] \<and> shape y_train = [n_train]
           \<and> shape X_test = [n_test, 2] \<and> shape y_test = [n_test] \<and> well_formed y_test
           \<and> 0 < n_test)"
  unfolding split_cell_def
  apply (rule completes_then [OF completes_call_other [OF d]])
  apply (rule completes_then [OF completes_call_other [OF d]])
  apply (rule completes_then_op [OF completes_train_test_split [OF d]])
  apply (rule completes_then completes_call_other d)+
  apply (rule completes_done_op, assumption)
  done

lemma completes_init_cell:
  assumes d: "delivers lib" and X: "shape X = [n, 2]"
  shows "completes (init_cell lib X) (\<lambda>_. True)"
  unfolding init_cell_def
  by (rule completes_then completes_dim completes_randn completes_call_other d completes_done_op
      | simp add: X)+

lemma completes_model_block:
  assumes d: "delivers lib" and X: "shape X = [n, 2]" and y: "shape y_train = [n_train]"
  shows "completes (model_block lib X y_train init_1 init_2 init_out) (\<lambda>_. True)"
  unfolding model_block_def
  by (rule completes_then completes_dim completes_register completes_call_other d completes_done_op
      | simp add: X y)+

lemma completes_model_cell:
  assumes d: "delivers lib" and X: "shape X = [n, 2]" and y: "shape y_train = [n_train]"
  shows "completes (model_cell lib X y_train init_1 init_2 init_out) (\<lambda>_. True)"
  unfolding model_cell_def
  by (rule completes_then completes_call_other d completes_with_context
        completes_model_block [OF d X y])+

lemma completes_fit_cell:
  assumes d: "delivers lib"
  shows "completes (fit_cell lib m) (\<lambda>a. \<forall>i. weights_shaped 2 (draws a i))"
  unfolding fit_cell_def
  by (rule completes_with_context [OF d completes_fit [OF d]])

lemma completes_objective_cell: "delivers lib \<Longrightarrow> completes (objective_cell lib) (\<lambda>_. True)"
  unfolding objective_cell_def
  by (rule completes_then completes_call_other | assumption)+

lemma completes_compile_cell:
  assumes d: "delivers lib" and X: "shape X_train = [n_train, 2]"
  shows "completes (compile_cell lib X_train) (\<lambda>_. True)"
  unfolding compile_cell_def
  by (rule completes_then completes_call_other d completes_first_items [OF X])+

lemma completes_training:
  assumes d: "delivers lib" and X: "shape X = [n, 2]"
    and Xtr: "shape X_train = [n_train, 2]" and y: "shape y_train = [n_train]"
  shows "completes (training lib X X_train y_train) (\<lambda>a. \<forall>i. weights_shaped 2 (draws a i))"
  unfolding training_def
  apply (rule completes_then [OF completes_init_cell [OF d X]])
  apply (rule completes_case_prod)+
  apply (rule completes_then [OF completes_model_cell [OF d X y]])
  apply (rule completes_then_op [OF completes_fit_cell [OF d]])
  apply (rule completes_then_op [OF completes_sample [OF d]], assumption)
  apply (rule completes_then [OF completes_objective_cell [OF d]])
  apply (rule completes_then [OF completes_compile_cell [OF d Xtr]])
  apply (rule completes_done_op, assumption)
  done

lemma completes_predict:
  assumes x: "shape X_test = [n, 2]" and pos: "0 < n"
    and w: "\<forall>i. weights_shaped 2 (draws approx i)"
  shows "completes (array_op what (predict approx X_test))
     (\<lambda>(pred, approx'). shape pred = [n] \<and> length (data pred) = n
         \<and> (\<forall>i. weights_shaped 2 (draws approx' i)))"
proof (rule completes_array_op)
  from predict_value [OF x pos w] obtain probs pred approx' where
    sp: "sample_proba approx X_test 500 = Inr (probs, approx')"
    and p: "predict approx X_test = Inr (pred, approx')" "shape pred = [n]" "length (data pred) = n"
    by blast
  have "approx' = approx\<lparr>consumed := consumed approx + 500\<rparr>"
    using sp sample_proba_total [OF x w, of 500] by auto
  then have "\<forall>i. weights_shaped 2 (draws approx' i)" using w by simp
  with p show "\<exists>v. predict approx X_test = Inr v \<and>
      (case v of (pred, approx') \<Rightarrow> shape pred = [n] \<and> length (data pred) = n
         \<and> (\<forall>i. weights_shaped 2 (draws approx' i)))"
    by simp
qed

lemma completes_up_to_prediction:
  assumes d: "delivers lib"
  shows "completes (up_to_prediction lib)
     (\<lambda>(X_test, y_test, pred, approx). \<exists>n.
         shape X_test = [n, 2] \<and> 0 < n \<and> shape y_test = [n] \<and> well_formed y_test
         \<and> shape pred = [n] \<and> length (data pred) = n
         \<and> (\<forall>i. weights_shaped 2 (draws approx i)))"
  unfolding up_to_prediction_def
  apply (rule completes_then [OF completes_imports_cell [OF d]])
  apply (rule completes_then_op [OF completes_dataset_cell [OF d]])
  apply (clarsimp simp del: One_nat_def)
  apply (rule completes_then_op [OF completes_split_cell [OF d]])
  apply (clarsimp simp del: One_nat_def)
  apply (rule completes_then_op [OF completes_training [OF d]], assumption+)
  apply (rule completes_then_op [OF completes_predict], assumption+)
  apply (clarsimp simp del: One_nat_def)
  apply (rule completes_done_op)
  apply simp
  done

lemma completes_accuracy_cell:
  assumes d: "delivers lib"
    and y: "shape y_test = [n]" "well_formed y_test"
    and p: "shape pred = [n]" "length (data pred) = n" and pos: "0 < n"
  shows "completes (accuracy_cell lib y_test pred) (\<lambda>_. True)"
proof -
  from y have ylen: "length (data y_test) = n" by (simp add: well_formed_def)
  have acc: "completes (array_op what (accuracy y_test pred)) (\<lambda>_. True)" for what
    using accuracy_value [OF y(1) ylen p pos] by (intro completes_array_op) simp
  show ?thesis
    unfolding accuracy_cell_def
    by (rule completes_then acc completes_print d completes_done_op | simp)+
qed

lemma completes_labels_cell:
  assumes d: "delivers lib" and x: "shape X_test = [n, 2]" and p: "shape pred = [n]"
  shows "completes (labels_cell lib X_test pred) (\<lambda>_. True)"
  unfolding labels_cell_def
  by (rule completes_then completes_call_other d completes_scatter_classes [OF d x]
      | simp add: p)+

lemma completes_contour_plot:
  assumes d: "delivers lib" and x: "shape X_test = [n, 2]" and p: "shape pred = [n]"
    and args: "\<exists>v. contour_arguments reduce grid ppc = Inr v"
  shows "completes (contour_plot lib palette reduce grid ppc X_test pred) (\<lambda>_. True)"
proof -
  have c: "completes (array_op what (contour_arguments reduce grid ppc)) (\<lambda>_. True)" for what
    using args by (intro completes_array_op) simp
  show ?thesis
    unfolding contour_plot_def
    by (rule completes_then c completes_case_prod completes_call_other completes_call_plot d
          completes_scatter_classes [OF d x]
        | simp add: p)+
qed

lemma completes_after_prediction:
  assumes d: "delivers lib"
    and x: "shape X_test = [n, 2]" and pos: "0 < n"
    and y: "shape y_test = [n]" "well_formed y_test"
    and p: "shape pred = [n]" "length (data pred) = n"
    and w: "\<forall>i. weights_shaped 2 (draws approx i)"
  shows "completes (after_prediction lib X_test y_test pred approx) (\<lambda>_. True)"
proof -
  have grid: "completes (array_op what grid_cell)
      (\<lambda>(g, g2, d). shape g = [2, 100, 100] \<and> shape g2 = [10000, 2])" for what
    using grid_cell_shapes by (intro completes_array_op) auto
  have ppc: "completes (array_op what (sample_proba approx g2 500))
      (\<lambda>(ppc, approx'). shape ppc = [500, 10000])" if "shape g2 = [10000, 2]" for what g2
    using sample_proba_total [OF that w, of 500] by (intro completes_array_op) auto
  have n500: "(0::nat) < 500" by simp
  have cm: "completes (contour_plot lib palette mean_axis0 g c X_test pred) (\<lambda>_. True)"
    if "shape g = [2, 100, 100]" "shape c = [500, 10000]" for palette g c
    using contour_arguments_mean [OF that n500] by (intro completes_contour_plot [OF d x p(1)]) blast
  have cs: "completes (contour_plot lib palette std_axis0 g c X_test pred) (\<lambda>_. True)"
    if "shape g = [2, 100, 100]" "shape c = [500, 10000]" for palette g c
    using contour_arguments_std [OF that n500] by (intro completes_contour_plot [OF d x p(1)]) blast
  show ?thesis
    unfolding after_prediction_def
    apply (rule completes_then [OF completes_accuracy_cell [OF d y p pos]])
    apply (rule completes_then [OF completes_labels_cell [OF d x p(1)]])
    apply (rule completes_then [OF completes_call_other [OF d]])
    apply (rule completes_then_op [OF grid])
    apply (clarsimp simp del: One_nat_def)
    apply (rule completes_then_op [OF ppc], assumption)
    apply (clarsimp simp del: One_nat_def)
    apply (rule completes_then [OF cm], assumption+)
    apply (rule completes_then [OF cs], assumption+)
    apply (rule completes_done_op)
    apply simp
    done
qed

lemma completes_notebook:
  assumes d: "delivers lib"
  shows "completes (notebook lib) (\<lambda>_. True)"
  unfolding notebook_def
  apply (rule completes_then_op [OF completes_up_to_prediction [OF d]])
  apply (clarsimp simp del: One_nat_def)
  apply (rule completes_then [OF completes_after_prediction [OF d]])
         apply simp_all
  apply (rule completes_done_op)
  apply simp
  done

subsection \<open>Two runs that differ in the test labels\<close>

text \<open>
  Only \<open>split_cell\<close> calls \<^verbatim>\<open>train_test_split\<close>. Up to the cell that computes
  \<open>pred\<close> the second run does what the first one does: it ends with the same error, or
  with the same values but for the test labels, and in the same state.
\<close>

lemma with_test_labels_calls [simp]:
  "make_moons (with_test_labels f lib) = make_moons lib"
  "scale (with_test_labels f lib) = scale lib"
  "randn (with_test_labels f lib) = randn lib"
  "register (with_test_labels f lib) = register lib"
  "exit_context (with_test_labels f lib) = exit_context lib"
  "fit (with_test_labels f lib) = fit lib"
  "sample (with_test_labels f lib) = sample lib"
  "plot (with_test_labels f lib) = plot lib"
  "print (with_test_labels f lib) = print lib"
  "other (with_test_labels f lib) = other lib"
  by (simp_all add: with_test_labels_def)

lemma call_other_with_test_labels [simp]:
  "call_other (with_test_labels f lib) = call_other lib"
  by (intro ext) (simp add: call_other_def)

lemma call_plot_with_test_labels [simp]:
  "call_plot (with_test_labels f lib) = call_plot lib"
  by (intro ext) (simp add: call_plot_def)

lemma with_context_with_test_labels [simp]:
  "with_context (with_test_labels f lib) = with_context lib"
  unfolding with_context_def call_other_with_test_labels with_test_labels_calls
  by (rule refl)

lemma scatter_classes_with_test_labels [simp]:
  "scatter_classes (with_test_labels f lib) = scatter_classes lib"
  unfolding scatter_classes_def call_plot_with_test_labels
  by (rule refl)

lemma contour_plot_with_test_labels [simp]:
  "contour_plot (with_test_labels f lib) = contour_plot lib"
  unfolding contour_plot_def call_other_with_test_labels call_plot_with_test_labels
    scatter_classes_with_test_labels
  by (rule refl)

lemma imports_cell_with_test_labels [simp]:
  "imports_cell (with_test_labels f lib) = imports_cell lib"
  unfolding imports_cell_def call_other_with_test_labels
  by (rule refl)

lemma dataset_cell_with_test_labels [simp]:
  "dataset_cell (with_test_labels f lib) = dataset_cell lib"
  unfolding dataset_cell_def call_other_with_test_labels scatter_classes_with_test_labels
    with_test_labels_calls
  by (rule refl)

lemma training_with_test_labels [simp]:
  "training (with_test_labels f lib) = training lib"
  unfolding training_def init_cell_def model_cell_def model_block_def fit_cell_def
    objective_cell_def compile_cell_def call_other_with_test_labels
    with_context_with_test_labels with_test_labels_calls
  by (rule refl)

lemma after_prediction_with_test_labels [simp]:
  "after_prediction (with_test_labels f lib) = after_prediction lib"
  unfolding after_prediction_def accuracy_cell_def labels_cell_def
    call_other_with_test_labels scatter_classes_with_test_labels
    contour_plot_with_test_labels with_test_labels_calls
  by (rule refl)

lemma train_test_split_with_test_labels:
  "train_test_split (with_test_labels f lib) X y test_size w =
     (case train_test_split lib X y test_size w of
        (Inl e, w') \<Rightarrow> (Inl e, w')
      | (Inr (X_train, X_test, y_train, y_test), w') \<Rightarrow>
          (Inr (X_train, X_test, y_train, f y_test), w'))"
  by (simp add: with_test_labels_def)

lemma then_op_relabelled:
  assumes "\<And>u s1. f' u s1 =
      (case f u s1 of (Inl e, s') \<Rightarrow> (Inl e, s') | (Inr v, s') \<Rightarrow> (Inr (g v), s'))"
  shows "then_op m f' s =
      (case then_op m f s of (Inl e, s') \<Rightarrow> (Inl e, s') | (Inr v, s') \<Rightarrow> (Inr (g v), s'))"
  by (simp add: then_op_def assms split: prod.splits sum.splits)

lemma split_with_test_labels:
  "then_op (library_call ''train_test_split'' (train_test_split (with_test_labels f lib) X y (3 / 10)))
     (\<lambda>split. then_op (call_other lib ''theano.shared'') (\<lambda>_.
               then_op (call_other lib ''theano.shared'') (\<lambda>_. done_op split))) s =
   (case then_op (library_call ''train_test_split'' (train_test_split lib X y (3 / 10)))
     (\<lambda>split. then_op (call_other lib ''theano.shared'') (\<lambda>_.
               then_op (call_other lib ''theano.shared'') (\<lambda>_. done_op split))) s of
      (Inl e, s') \<Rightarrow> (Inl e, s')
    | (Inr v, s') \<Rightarrow> (Inr (case v of (X_train, X_test, y_train, y_test) \<Rightarrow>
                              (X_train, X_test, y_train, f y_test)), s'))"
proof -
  obtain w l where s: "s = (w, l)" by (cases s)
  obtain r w1 where t: "train_test_split lib X y (3 / 10) w = (r, w1)"
    by (cases "train_test_split lib X y (3 / 10) w")
  let ?split = "\<lambda>lib. library_call ''train_test_split'' (train_test_split lib X y (3 / 10))"
  show ?thesis
  proof (cases r)
    case (Inl e)
    have "?split lib s = (Inl e, w1, l @ [(Library, ''train_test_split'', Some e)])"
      by (simp add: library_call_def s t Inl outcome_def)
    moreover have "?split (with_test_labels f lib) s =
        (Inl e, w1, l @ [(Library, ''train_test_split'', Some e)])"
      by (simp add: library_call_def train_test_split_with_test_labels s t Inl outcome_def)
    ultimately show ?thesis
      by (simp add: then_op_Inl)
  next
    case (Inr v)
    obtain X_train X_test y_train y_test where v: "v = (X_train, X_test, y_train, y_test)"
      by (cases v)
    let ?s1 = "(w1, l @ [(Library, ''train_test_split'', None)])"
    have r: "?split lib s = (Inr (X_train, X_test, y_train, y_test), ?s1)"
      by (simp add: library_call_def s t Inr v outcome_def)
    have l: "?split (with_test_labels f lib) s = (Inr (X_train, X_test, y_train, f y_test), ?s1)"
      by (simp add: library_call_def train_test_split_with_test_labels s t Inr v outcome_def)
    obtain r2 s2 where c1: "call_other lib ''theano.shared'' ?s1 = (r2, s2)"
      by (cases "call_other lib ''theano.shared'' ?s1")
    obtain r3 s3 where c2: "call_other lib ''theano.shared'' s2 = (r3, s3)"
      by (cases "call_other lib ''theano.shared'' s2")
    show ?thesis
      unfolding then_op_Inr [of "?split lib" s, OF r]
        then_op_Inr [of "?split (with_test_labels f lib)" s, OF l]
      by (cases r2; cases r3) (simp_all add: then_op_def c1 c2 done_op_def)
  qed
qed

lemma split_cell_with_test_labels:
  "split_cell (with_test_labels f lib) X y s =
     (case split_cell lib X y s of
        (Inl e, s') \<Rightarrow> (Inl e, s')
      | (Inr (X_train, X_test, y_train, y_test), s') \<Rightarrow> (Inr (X_train, X_test, y_train, f y_test), s'))"
proof -
  have "split_cell (with_test_labels f lib) X y s =
     (case split_cell lib X y s of
        (Inl e, s') \<Rightarrow> (Inl e, s')
      | (Inr v, s') \<Rightarrow> (Inr (case v of (X_train, X_test, y_train, y_test) \<Rightarrow>
                              (X_train, X_test, y_train, f y_test)), s'))"
    unfolding split_cell_def call_other_with_test_labels
    by (intro then_op_relabelled split_with_test_labels)
  then show ?thesis
    by (simp split: prod.splits sum.splits)
qed

lemma up_to_prediction_with_test_labels:
  "up_to_prediction (with_test_labels f lib) s =
     (case up_to_prediction lib s of
        (Inl e, s') \<Rightarrow> (Inl e, s')
      | (Inr (X_test, y_test, pred, approx), s') \<Rightarrow> (Inr (X_test, f y_test, pred, approx), s'))"
  by (simp add: up_to_prediction_def then_op_def split_cell_with_test_labels done_op_def
      split: prod.splits sum.splits)

lemma up_to_prediction_value:
  assumes "up_to_prediction lib s = (Inr (X_test, y_test, pred, approx), s')"
  shows "\<exists>approx0 probs. sample_proba approx0 X_test 500 = Inr (probs, approx)
           \<and> predict approx0 X_test = Inr (pred, approx)"
proof -
  from assms obtain approx0 where p: "predict approx0 X_test = Inr (pred, approx)"
    by (auto simp: up_to_prediction_def then_op_Inr_iff array_op_def done_op_def split: prod.splits)
  then obtain probs approx' where "sample_proba approx0 X_test 500 = Inr (probs, approx')"
    "approx' = approx"
    by (auto simp: predict_def and_then_eq_Inr)
  with p show ?thesis by blast
qed

lemma after_prediction_value:
  assumes "after_prediction lib X_test y_test pred approx s = (Inr (acc, ppc), s')"
  shows "accuracy y_test pred = Inr acc
       \<and> (\<exists>grid grid_2d dummy_out approx'. grid_cell = Inr (grid, grid_2d, dummy_out)
             \<and> sample_proba approx grid_2d 500 = Inr (ppc, approx'))"
  using assms
  by (auto simp: after_prediction_def accuracy_cell_def then_op_Inr_iff array_op_def done_op_def
      split: prod.splits)

subsection \<open>The example libraries\<close>

lemma delivers_quiet_library: "delivers quiet_library"
  by (auto simp add: delivers_def quiet_library_def example_approx_shaped well_formed_zeros)

lemma shape_flipped [simp]: "shape (flipped y) = shape y"
  by (simp add: flipped_def elementwise_def)

lemma well_formed_flipped: "well_formed y \<Longrightarrow> well_formed (flipped y)"
  by (simp add: well_formed_def flipped_def elementwise_def)

lemma delivers_with_test_labels:
  assumes d: "delivers lib"
    and f: "\<And>y. shape (f y) = shape y" "\<And>y. well_formed y \<Longrightarrow> well_formed (f y)"
  shows "delivers (with_test_labels f lib)"
proof -
  have split: "\<exists>X_train X_test y_train y_test n_train n_test w'.
           train_test_split (with_test_labels f lib) X y test_size w
             = (Inr (X_train, X_test, y_train, y_test), w')
           \<and> shape X_train = [n_train, 2] \<and> shape y_train = [n_train]
           \<and> shape X_test = [n_test, 2] \<and> shape y_test = [n_test] \<and> well_formed y_test
           \<and> 0 < n_test" for X y test_size w
  proof -
    from delivers_split [OF d, of X y test_size w]
    obtain X_train X_test y_train y_test n_train n_test w' where
      t: "train_test_split lib X y test_size w = (Inr (X_train, X_test, y_train, y_test), w')"
      and s: "shape X_train = [n_train, 2]" "shape y_train = [n_train]"
        "shape X_test = [n_test, 2]" "shape y_test = [n_test]" "well_formed y_test" "0 < n_test"
      by blast
    have "train_test_split (with_test_labels f lib) X y test_size w
        = (Inr (X_train, X_test, y_train, f y_test), w')"
      by (simp add: train_test_split_with_test_labels t)
    moreover have "shape (f y_test) = [n_test]" "well_formed (f y_test)"
      using s f by simp_all
    ultimately show ?thesis using s by blast
  qed
  from d have "delivers (with_test_labels f lib) \<longleftrightarrow>
      (\<forall>X y test_size w. \<exists>X_train X_test y_train y_test n_train n_test w'.
           train_test_split (with_test_labels f lib) X y test_size w
             = (Inr (X_train, X_test, y_train, y_test), w')
           \<and> shape X_train = [n_train, 2] \<and> shape y_train = [n_train]
           \<and> shape X_test = [n_test, 2] \<and> shape y_test = [n_test] \<and> well_formed y_test
           \<and> 0 < n_test)"
    by (simp add: delivers_def)
  with split show ?thesis by blast
qed

lemma quiet_up_to_prediction:
  assumes "up_to_prediction quiet_library s = (Inr (X_test, y_test, pred, approx), s')"
  shows "X_test = zeros [300, 2] \<and> y_test = zeros [300]
       \<and> predict example_approx (zeros [300, 2]) = Inr (pred, approx)"
proof -
  have fit: "a = example_approx" if "fit_cell quiet_library m s1 = (Inr a, s2)" for m s1 s2 a
    using that
    by (auto simp: fit_cell_def with_context_def then_op_Inr_iff library_call_def
        quiet_library_def done_op_def split: prod.splits sum.splits)
  have sample: "sample quiet_library a n w = (Inr a, w)" for a n w
    by (simp add: quiet_library_def)
  have training: "a = example_approx"
    if "training quiet_library X X_train y_train s1 = (Inr a, s2)" for X X_train y_train s1 s2 a
    using that
    by (auto simp: training_def then_op_Inr_iff done_op_def library_call_def sample
        dest: fit split: prod.splits)
  from assms obtain X y X_train y_train s1 s2 a s3 where
    sp: "split_cell quiet_library X y s1 = (Inr (X_train, X_test, y_train, y_test), s2)"
    and tr: "training quiet_library X X_train y_train s2 = (Inr a, s3)"
    and pr: "predict a X_test = Inr (pred, approx)"
    by (auto simp: up_to_prediction_def then_op_Inr_iff array_op_def done_op_def split: prod.splits)
  from sp have "X_test = zeros [300, 2]" "y_test = zeros [300]"
    by (auto simp: split_cell_def then_op_Inr_iff library_call_def done_op_def quiet_library_def
        split: prod.splits)
  with training [OF tr] pr show ?thesis by simp
qed

lemma flipped_labels_accuracy:
  assumes "shape labels = [rows]" "data labels = replicate rows False" "0 < rows"
  shows "accuracy (flipped (zeros [rows])) labels = Inr (Some 0)"
proof -
  have "{j. j < rows \<and> data (flipped (zeros [rows])) ! j = of_bool (data labels ! j)} = {}"
    using assms(2) by (auto simp: zeros_def flipped_def elementwise_def)
  then show ?thesis
    using accuracy_value [of "flipped (zeros [rows])" rows labels] assms
    by (simp add: flipped_def elementwise_def)
qed

lemma failing_run:
  "notebook failing_library ((), []) =
     (Inl ValueError, (),
      [(Library, ''%matplotlib inline'', None), (Library, ''import numpy'', None),
       (Library, ''import pandas'', None), (Library, ''import matplotlib.pyplot'', None),
       (Library, ''import seaborn'', None), (Library, ''sns.set'', None),
       (Library, ''import theano'', None), (Library, ''import theano.tensor'', None),
       (Library, ''import pymc3'', None), (Library, ''from scipy import optimize'', None),
       (Library, ''from ipywidgets import interact'', None),
       (Library, ''from IPython.display import SVG'', None),
       (Library, ''from sklearn import datasets'', None),
       (Library, ''from sklearn.model_selection import train_test_split'', None),
       (Library, ''from sklearn.preprocessing import scale'', None),
       (Library, ''theano.config.floatX'', None),
       (Library, ''theano.config.compute_test_value'', None),
       (Library, ''datasets.make_moons'', None), (Library, ''scale'', None),
       (Library, ''plt.subplots'', None),
       (Array, ''a[c==0, 0], a[c==0, 1]'', None), (Library, ''ax.scatter'', None),
       (Array, ''a[c==1, 0], a[c==1, 1]'', None), (Library, ''ax.scatter'', None),
       (Library, ''sns.despine'', None), (Library, ''ax.legend'', None), (Library, ''ax.set'', None),
       (Library, ''X.astype'', None), (Library, ''y.astype'', None),
       (Library, ''train_test_split'', None), (Library, ''theano.shared'', None),
       (Library, ''theano.shared'', None),
       (Array, ''X.shape[1]'', None), (Library, ''np.random.randn'', None),
       (Library, ''astype'', None), (Library, ''np.random.randn'', None),
       (Library, ''astype'', None), (Library, ''np.random.randn'', None),
       (Library, ''astype'', None),
       (Library, ''pm.Model'', None), (Library, ''__enter__'', None),
       (Array, ''X.shape[1]'', None), (Library, ''pm.Normal'', None),
       (Library, ''pm.Normal'', Some ValueError), (Library, ''__exit__'', None)])"
proof -
  have le: "(2::nat) \<le> 2" by simp
  have X: "shape (zeros [1000, 2]) = [1000, 2]" by simp
  have s0: "shape (elementwise (\<lambda>v. v = 0) (zeros [1000])) = [1000]" by (simp add: elementwise_def)
  have s1: "shape (elementwise (\<lambda>v. v = 1) (zeros [1000])) = [1000]" by (simp add: elementwise_def)
  from scatter_points_total [OF X s0 le] obtain xs0 ys0 where
    c0: "scatter_points (zeros [1000, 2]) (elementwise (\<lambda>v. v = 0) (zeros [1000])) = Inr (xs0, ys0)" by blast
  from scatter_points_total [OF X s1 le] obtain xs1 ys1 where
    c1: "scatter_points (zeros [1000, 2]) (elementwise (\<lambda>v. v = 1) (zeros [1000])) = Inr (xs1, ys1)" by blast
  show ?thesis
    by (simp add: notebook_def up_to_prediction_def imports_cell_def dataset_cell_def
        scatter_classes_def split_cell_def training_def init_cell_def model_cell_def
        model_block_def with_context_def then_op_def library_call_def array_op_def
        call_other_def call_plot_def done_op_def outcome_def failing_library_def
        quiet_library_def dim_def n_hidden_def weight_variable_def c0 c1)
qed

section \<open>The claims\<close>



text \<open>
  C2. For a feature matrix of two columns the model declares exactly three weight
  variables: \<open>w_in_1\<close> of shape \<open>(2, 5)\<close>, \<open>w_1_2\<close> of shape \<open>(5, 5)\<close> and \<open>w_2_out\<close> of
  shape \<open>(5)\<close>, each with the prior \<open>Normal 0 1\<close>. No weight variable has another prior;
  the only other variable is the observed \<open>out\<close>.
\<close>

theorem weights_have_standard_normal_priors:
  assumes "shape X_scaled = [n, 2]" and "shape y_train = [n_train]"
  shows "\<exists>m. neural_network X_scaled y_train ann_output init_1 init_2 init_out = Inr m
     \<and> map (\<lambda>v. (name v, distribution v, rv_shape v)) (free_RVs m) =
         [(''w_in_1'', Normal 0 1, Some [2, 5]), (''w_1_2'', Normal 0 1, Some [5, 5]),
          (''w_2_out'', Normal 0 1, Some [5])]
     \<and> (\<forall>v\<in>set (free_RVs m). distribution v = Normal 0 1)
     \<and> map name (observed_RVs m) = [''out'']"
  using assms by (simp add: neural_network_def dim_def n_hidden_def)

theorem weights_have_standard_normal_priors_witness:
  "shape (zeros [1000, 2]) = [1000, 2] \<and> shape (zeros [700]) = [700]
   \<and> (\<exists>m. neural_network (zeros [1000, 2]) (zeros [700]) (zeros [700]) (zeros [2, 5]) (zeros [5, 5]) (zeros [5]) = Inr m
     \<and> map (\<lambda>v. (name v, distribution v, rv_shape v)) (free_RVs m) =
         [(''w_in_1'', Normal 0 1, Some [2, 5]), (''w_1_2'', Normal 0 1, Some [5, 5]),
          (''w_2_out'', Normal 0 1, Some [5])]
     \<and> (\<forall>v\<in>set (free_RVs m). distribution v = Normal 0 1)
     \<and> map name (observed_RVs m) = [''out''])"
  using weights_have_standard_normal_priors [of "zeros [1000, 2]" 1000 "zeros [700]" 700 "zeros [700]" "zeros [2, 5]" "zeros [5, 5]" "zeros [5]"]
  by simp

text \<open>
  C6. In every run of the notebook, with any library whose context exits pass an error
  on, an operation that raised has raised the error with which the run ends. A run
  that raises nowhere executes the operations of the notebook, all of them, in the order
  of the source. A run that ends with an error \<open>e\<close> has executed an initial part of these
  operations, of which only the last one raised, and it raised \<open>e\<close>; after it nothing
  ran but the exits of the \<^verbatim>\<open>with\<close> statements that were open. So no error is
  caught, retried or replaced, and no operation of the notebook runs after an error.
\<close>

theorem errors_propagate_unchanged:
  assumes "exits_pass lib" and "notebook lib (w, []) = (r, w', l)"
  shows "(\<forall>k what e. (k, what, Some e) \<in> set l \<longrightarrow> r = Inl e)
       \<and> (case r of
             Inr v \<Rightarrow> clean l \<and> executed l = operations
           | Inl e \<Rightarrow>
               (\<exists>pre k what post rest.
                  l = pre @ [(k, what, Some e)] @ post \<and> clean pre \<and> exits post
                  \<and> operations = executed pre @ [(k, what)] @ rest))"
proof -
  from follows_notebook [OF assms(1)] assms(2)
  obtain new where "l = [] @ new" "trace r new operations" by (rule followsD)
  then have t: "trace r l operations" by simp
  have "r = Inl e'" if m: "(k', what', Some e') \<in> set l" for k' what' e'
  proof (cases r)
    case (Inr v)
    with t have "clean l" by simp
    with m show ?thesis by (auto simp: clean_def)
  next
    case (Inl e)
    with t obtain pre k what post rest where
      "l = pre @ [(k, what, Some e)] @ post" "clean pre" "exits post"
      by (auto elim: trace_InlE)
    with m have "e' = e" by (auto simp: clean_def exits_def)
    with Inl show ?thesis by simp
  qed
  moreover from t have "case r of
             Inr v \<Rightarrow> clean l \<and> executed l = operations
           | Inl e \<Rightarrow>
               (\<exists>pre k what post rest.
                  l = pre @ [(k, what, Some e)] @ post \<and> clean pre \<and> exits post
                  \<and> operations = executed pre @ [(k, what)] @ rest)"
    unfolding trace_def .
  ultimately show ?thesis by blast
qed

theorem errors_propagate_unchanged_witness:
  "exits_pass failing_library
   \<and> notebook failing_library ((), []) =
     (Inl ValueError, (),
      [(Library, ''%matplotlib inline'', None), (Library, ''import numpy'', None),
       (Library, ''import pandas'', None), (Library, ''import matplotlib.pyplot'', None),
       (Library, ''import seaborn'', None), (Library, ''sns.set'', None),
       (Library, ''import theano'', None), (Library, ''import theano.tensor'', None),
       (Library, ''import pymc3'', None), (Library, ''from scipy import optimize'', None),
       (Library, ''from ipywidgets import interact'', None),
       (Library, ''from IPython.display import SVG'', None),
       (Library, ''from sklearn import datasets'', None),
       (Library, ''from sklearn.model_selection import train_test_split'', None),
       (Library, ''from sklearn.preprocessing import scale'', None),
       (Library, ''theano.config.floatX'', None),
       (Library, ''theano.config.compute_test_value'', None),
       (Library, ''datasets.make_moons'', None), (Library, ''scale'', None),
       (Library, ''plt.subplots'', None),
       (Array, ''a[c==0, 0], a[c==0, 1]'', None), (Library, ''ax.scatter'', None),
       (Array, ''a[c==1, 0], a[c==1, 1]'', None), (Library, ''ax.scatter'', None),
       (Library, ''sns.despine'', None), (Library, ''ax.legend'', None), (Library, ''ax.set'', None),
       (Library, ''X.astype'', None), (Library, ''y.astype'', None),
       (Library, ''train_test_split'', None), (Library, ''theano.shared'', None),
       (Library, ''theano.shared'', None),
       (Array, ''X.shape[1]'', None), (Library, ''np.random.randn'', None),
       (Library, ''astype'', None), (Library, ''np.random.randn'', None),
       (Library, ''astype'', None), (Library, ''np.random.randn'', None),
       (Library, ''astype'', None),
       (Library, ''pm.Model'', None), (Library, ''__enter__'', None),
       (Array, ''X.shape[1]'', None), (Library, ''pm.Normal'', None),
       (Library, ''pm.Normal'', Some ValueError), (Library, ''__exit__'', None)])
   \<and> (\<exists>pre k what post rest.
         [(Library, ''%matplotlib inline'', None), (Library, ''import numpy'', None),
          (Library, ''import pandas'', None), (Library, ''import matplotlib.pyplot'', None),
          (Library, ''import seaborn'', None), (Library, ''sns.set'', None),
          (Library, ''import theano'', None), (Library, ''import theano.tensor'', None),
          (Library, ''import pymc3'', None), (Library, ''from scipy import optimize'', None),
          (Library, ''from ipywidgets import interact'', None),
          (Library, ''from IPython.display import SVG'', None),
          (Library, ''from sklearn import datasets'', None),
          (Library, ''from sklearn.model_selection import train_test_split'', None),
          (Library, ''from sklearn.preprocessing import scale'', None),
          (Library, ''theano.config.floatX'', None),
          (Library, ''theano.config.compute_test_value'', None),
          (Library, ''datasets.make_moons'', None), (Library, ''scale'', None),
          (Library, ''plt.subplots'', None),
          (Array, ''a[c==0, 0], a[c==0, 1]'', None), (Library, ''ax.scatter'', None),
          (Array, ''a[c==1, 0], a[c==1, 1]'', None), (Library, ''ax.scatter'', None),
          (Library, ''sns.despine'', None), (Library, ''ax.legend'', None), (Library, ''ax.set'', None),
          (Library, ''X.astype'', None), (Library, ''y.astype'', None),
          (Library, ''train_test_split'', None), (Library, ''theano.shared'', None),
          (Library, ''theano.shared'', None),
          (Array, ''X.shape[1]'', None), (Library, ''np.random.randn'', None),
          (Library, ''astype'', None), (Library, ''np.random.randn'', None),
          (Library, ''astype'', None), (Library, ''np.random.randn'', None),
          (Library, ''astype'', None),
          (Library, ''pm.Model'', None), (Library, ''__enter__'', None),
          (Array, ''X.shape[1]'', None), (Library, ''pm.Normal'', None),
          (Library, ''pm.Normal'', Some ValueError), (Library, ''__exit__'', None)]
           = pre @ [(k, what, Some ValueError)] @ post
         \<and> clean pre \<and> exits post
         \<and> operations = executed pre @ [(k, what)] @ rest)"
proof -
  have pass: "exits_pass failing_library"
    by (simp add: exits_pass_def failing_library_def quiet_library_def)
  from errors_propagate_unchanged [OF pass failing_run] pass failing_run
  show ?thesis by simp
qed

text \<open>
  C8. When the dataset has \<open>n\<close> rows of two columns and \<open>n\<close> labels, the training
  set \<open>n_train\<close> rows of two columns and \<open>n_train\<close> labels, the test set
  \<open>n_test > 0\<close> rows of two columns and \<open>n_test\<close> labels, and the weight samples have the
  declared shapes, no array operation of the cells raises, in the order of the cells:
  the class scatter of the dataset, \<open>X.shape[1]\<close>, the model declaration, the slice
  \<open>X_train[:10]\<close>, the prediction
  (a vector as long as the test set), the accuracy, the scatter of the test set by
  predicted label (boolean masks of the length of the test set), the grid of shape
  \<open>(2, 100, 100)\<close> and its \<open>10000\<close> points \<open>(-3 + 6 i / 99, -3 + 6 j / 99)\<close> as the rows of
  \<open>grid_2d\<close>, the 500 samples on the grid of shape \<open>(500, 10000)\<close>, and their mean and
  standard deviation, each reshaped to \<open>(100, 100)\<close>.
\<close>

theorem array_operations_do_not_raise:
  assumes X: "shape X_scaled = [n, 2]" and l: "shape labels = [n]"
    and Xtr: "shape X_train = [n_train, 2]" and ytr: "shape y_train = [n_train]"
    and Xt: "shape X_test = [n_test, 2]"
    and yt: "shape y_test = [n_test]" "well_formed y_test"
    and pos: "0 < n_test"
    and w: "\<forall>i. weights_shaped 2 (draws approx i)"
  shows "\<exists>class_0 class_1 m head p approx1 acc p_0 p_1 g g2 d ppc approx2.
      scatter_points X_scaled (elementwise (\<lambda>v. v = 0) labels) = Inr class_0
    \<and> scatter_points X_scaled (elementwise (\<lambda>v. v = 1) labels) = Inr class_1
    \<and> dim X_scaled 1 = Inr 2
    \<and> neural_network X_scaled y_train y_train init_1 init_2 init_out = Inr m
    \<and> first_items X_train 10 = Inr head
    \<and> predict approx X_test = Inr (p, approx1) \<and> shape p = [n_test] \<and> well_formed p
    \<and> accuracy y_test p = Inr acc
    \<and> scatter_points X_test (elementwise (\<lambda>b. of_bool b = (0::nat)) p) = Inr p_0
    \<and> scatter_points X_test (elementwise (\<lambda>b. of_bool b = (1::nat)) p) = Inr p_1
    \<and> grid_cell = Inr (g, g2, d) \<and> shape g = [2, 100, 100] \<and> well_formed g
    \<and> shape g2 = [10000, 2] \<and> well_formed g2 \<and> shape d = [100]
    \<and> (\<forall>i<100. \<forall>j<100. data g2 ! ((i * 100 + j) * 2) = - 3 + real i * (6 / 99)
                         \<and> data g2 ! ((i * 100 + j) * 2 + 1) = - 3 + real j * (6 / 99))
    \<and> sample_proba approx1 g2 500 = Inr (ppc, approx2) \<and> shape ppc = [500, 10000]
    \<and> (\<exists>gx gy z. contour_arguments mean_axis0 g ppc = Inr (gx, gy, z)
           \<and> shape gx = [100, 100] \<and> shape gy = [100, 100] \<and> shape z = [100, 100])
    \<and> (\<exists>gx gy z. contour_arguments std_axis0 g ppc = Inr (gx, gy, z)
           \<and> shape gx = [100, 100] \<and> shape gy = [100, 100] \<and> shape z = [100, 100])"
proof -
  have le: "(2::nat) \<le> 2" by simp
  from yt have ylen: "length (data y_test) = n_test" by (simp add: well_formed_def)
  have s0: "shape (elementwise (\<lambda>v. v = 0) labels) = [n]" by (simp add: l)
  have s1: "shape (elementwise (\<lambda>v. v = 1) labels) = [n]" by (simp add: l)
  from scatter_points_total [OF X s0 le] obtain class_0 where
    c0: "scatter_points X_scaled (elementwise (\<lambda>v. v = 0) labels) = Inr class_0" by auto
  from scatter_points_total [OF X s1 le] obtain class_1 where
    c1: "scatter_points X_scaled (elementwise (\<lambda>v. v = 1) labels) = Inr class_1" by auto
  have dm: "dim X_scaled 1 = Inr 2" using X by (simp add: dim_def)
  obtain m where m: "neural_network X_scaled y_train y_train init_1 init_2 init_out = Inr m"
    using X ytr by (simp add: neural_network_def dim_def)
  obtain head where hd: "first_items X_train 10 = Inr head"
    using Xtr by (simp add: first_items_def)
  from predict_value [OF Xt pos w] obtain probs p approx1 where
    sp: "sample_proba approx X_test 500 = Inr (probs, approx1)"
    and p: "predict approx X_test = Inr (p, approx1)" "shape p = [n_test]" "length (data p) = n_test"
    by blast
  have wp: "well_formed p" using p(2,3) by (simp add: well_formed_def)
  have a1: "approx1 = approx\<lparr>consumed := consumed approx + 500\<rparr>"
    using sp sample_proba_total [OF Xt w, of 500] by auto
  have w1: "\<forall>i. weights_shaped 2 (draws approx1 i)" using w by (simp add: a1)
  obtain acc where acc: "accuracy y_test p = Inr acc"
    using accuracy_value [OF yt(1) ylen p(2,3) pos] by blast
  have t0: "shape (elementwise (\<lambda>b. of_bool b = (0::nat)) p) = [n_test]" by (simp add: p)
  have t1: "shape (elementwise (\<lambda>b. of_bool b = (1::nat)) p) = [n_test]" by (simp add: p)
  from scatter_points_total [OF Xt t0 le] obtain p_0 where
    p0: "scatter_points X_test (elementwise (\<lambda>b. of_bool b = (0::nat)) p) = Inr p_0" by auto
  from scatter_points_total [OF Xt t1 le] obtain p_1 where
    p1: "scatter_points X_test (elementwise (\<lambda>b. of_bool b = (1::nat)) p) = Inr p_1" by auto
  from grid_cell_shapes obtain g g2 d where
    g: "grid_cell = Inr (g, g2, d)" "shape g = [2, 100, 100]" "well_formed g"
      "shape g2 = [10000, 2]" "well_formed g2" "shape d = [100]"
      "\<forall>i<100. \<forall>j<100. data g2 ! ((i * 100 + j) * 2) = - 3 + real i * (6 / 99)
                         \<and> data g2 ! ((i * 100 + j) * 2 + 1) = - 3 + real j * (6 / 99)"
    by blast
  from sample_proba_total [OF g(4) w1, of 500] obtain ppc approx2 where
    ppc: "sample_proba approx1 g2 500 = Inr (ppc, approx2)" "shape ppc = [500, 10000]"
    by auto
  have n500: "(0::nat) < 500" by simp
  note cm = contour_arguments_mean [OF g(2) ppc(2) n500]
  note cs = contour_arguments_std [OF g(2) ppc(2) n500]
  show ?thesis using c0 c1 dm m hd p(1,2) wp acc p0 p1 g ppc cm cs by blast
qed

theorem array_operations_do_not_raise_witness:
  "shape (zeros [1000, 2]) = [1000, 2] \<and> shape (zeros [1000]) = [1000]
   \<and> shape (zeros [700, 2]) = [700, 2] \<and> shape (zeros [700]) = [700]
   \<and> shape (zeros [300, 2]) = [300, 2]
   \<and> shape (zeros [300]) = [300] \<and> well_formed (zeros [300]) \<and> (0::nat) < 300
   \<and> (\<exists>class_0 class_1 m head p approx1 acc p_0 p_1 g g2 d ppc approx2.
      scatter_points (zeros [1000, 2]) (elementwise (\<lambda>v. v = 0) (zeros [1000])) = Inr class_0
    \<and> scatter_points (zeros [1000, 2]) (elementwise (\<lambda>v. v = 1) (zeros [1000])) = Inr class_1
    \<and> dim (zeros [1000, 2]) 1 = Inr 2
    \<and> neural_network (zeros [1000, 2]) (zeros [700]) (zeros [700]) (zeros [2, 5]) (zeros [5, 5]) (zeros [5]) = Inr m
    \<and> first_items (zeros [700, 2]) 10 = Inr head
    \<and> predict example_approx (zeros [300, 2]) = Inr (p, approx1) \<and> shape p = [300] \<and> well_formed p
    \<and> accuracy (zeros [300]) p = Inr acc
    \<and> scatter_points (zeros [300, 2]) (elementwise (\<lambda>b. of_bool b = (0::nat)) p) = Inr p_0
    \<and> scatter_points (zeros [300, 2]) (elementwise (\<lambda>b. of_bool b = (1::nat)) p) = Inr p_1
    \<and> grid_cell = Inr (g, g2, d) \<and> shape g = [2, 100, 100] \<and> well_formed g
    \<and> shape g2 = [10000, 2] \<and> well_formed g2 \<and> shape d = [100]
    \<and> (\<forall>i<100. \<forall>j<100. data g2 ! ((i * 100 + j) * 2) = - 3 + real i * (6 / 99)
                         \<and> data g2 ! ((i * 100 + j) * 2 + 1) = - 3 + real j * (6 / 99))
    \<and> sample_proba approx1 g2 500 = Inr (ppc, approx2) \<and> shape ppc = [500, 10000]
    \<and> (\<exists>gx gy z. contour_arguments mean_axis0 g ppc = Inr (gx, gy, z)
           \<and> shape gx = [100, 100] \<and> shape gy = [100, 100] \<and> shape z = [100, 100])
    \<and> (\<exists>gx gy z. contour_arguments std_axis0 g ppc = Inr (gx, gy, z)
           \<and> shape gx = [100, 100] \<and> shape gy = [100, 100] \<and> shape z = [100, 100]))"
  using array_operations_do_not_raise [of "zeros [1000, 2]" 1000 "zeros [1000]" "zeros [700, 2]" 700
      "zeros [700]" "zeros [300, 2]" 300 "zeros [300]" example_approx
      "zeros [2, 5]" "zeros [5, 5]" "zeros [5]"]
  by (simp add: example_approx_shaped well_formed_zeros)

text \<open>
  C10. Two runs of the notebook from the same state, the second with a library that
  differs from the first only in the test labels that \<^verbatim>\<open>train_test_split\<close> returns,
  \<open>f y_test\<close> for \<open>y_test\<close>: when both return, they return the same predicted labels and
  the same samples on the grid. After the cell that computes \<open>pred\<close> the two runs are in
  the same state, with the same test inputs and the same generator state; \<open>pred\<close> is
  computed from the same 500 samples of probabilities, and the two accuracies are those
  of \<open>y_test\<close> and of \<open>f y_test\<close> against this one prediction.
\<close>

theorem predictions_do_not_depend_on_test_labels:
  assumes "notebook lib (w, []) = (Inr (pred, acc, ppc), s)"
    and "notebook (with_test_labels f lib) (w, []) = (Inr (pred', acc', ppc'), s')"
  shows "pred' = pred \<and> ppc' = ppc
       \<and> (\<exists>X_test y_test approx0 probs approx s0.
            up_to_prediction lib (w, []) = (Inr (X_test, y_test, pred, approx), s0)
          \<and> up_to_prediction (with_test_labels f lib) (w, []) = (Inr (X_test, f y_test, pred, approx), s0)
          \<and> sample_proba approx0 X_test 500 = Inr (probs, approx)
          \<and> predict approx0 X_test = Inr (pred, approx)
          \<and> accuracy y_test pred = Inr acc \<and> accuracy (f y_test) pred = Inr acc')"
proof -
  from assms(1) obtain X_test y_test approx s0 where
    u: "up_to_prediction lib (w, []) = (Inr (X_test, y_test, pred, approx), s0)"
    and a: "after_prediction lib X_test y_test pred approx s0 = (Inr (acc, ppc), s)"
    by (auto simp: notebook_def then_op_Inr_iff done_op_def split: prod.splits)
  from u have u': "up_to_prediction (with_test_labels f lib) (w, []) =
      (Inr (X_test, f y_test, pred, approx), s0)"
    by (simp add: up_to_prediction_with_test_labels)
  from assms(2) obtain X_test' y_test' approx' s0' where
    v: "up_to_prediction (with_test_labels f lib) (w, []) = (Inr (X_test', y_test', pred', approx'), s0')"
    and b: "after_prediction lib X_test' y_test' pred' approx' s0' = (Inr (acc', ppc'), s')"
    by (auto simp: notebook_def then_op_Inr_iff done_op_def split: prod.splits)
  from u' v have eq: "X_test' = X_test" "y_test' = f y_test" "pred' = pred" "approx' = approx"
    by simp_all
  from after_prediction_value [OF a] obtain grid grid_2d dummy_out approx1 where
    acc: "accuracy y_test pred = Inr acc"
    and g: "grid_cell = Inr (grid, grid_2d, dummy_out)"
    and p: "sample_proba approx grid_2d 500 = Inr (ppc, approx1)"
    by blast
  from after_prediction_value [OF b [unfolded eq]] obtain grid' grid_2d' dummy_out' approx1' where
    acc': "accuracy (f y_test) pred = Inr acc'"
    and g': "grid_cell = Inr (grid', grid_2d', dummy_out')"
    and p': "sample_proba approx grid_2d' 500 = Inr (ppc', approx1')"
    by blast
  from g [symmetric] g' have "Inr (grid, grid_2d, dummy_out) = (Inr (grid', grid_2d', dummy_out') :: error + _)"
    by (rule trans)
  then have "grid_2d' = grid_2d" by simp
  with p p' have ppc: "ppc' = ppc" by simp
  from up_to_prediction_value [OF u] obtain approx0 probs where
    "sample_proba approx0 X_test 500 = Inr (probs, approx)"
    "predict approx0 X_test = Inr (pred, approx)"
    by blast
  with u u' acc acc' eq(3) ppc show ?thesis by blast
qed

theorem predictions_do_not_depend_on_test_labels_witness:
  "\<exists>pred ppc s s'.
      notebook quiet_library ((), []) = (Inr (pred, Some 100, ppc), s)
    \<and> notebook (with_test_labels flipped quiet_library) ((), []) = (Inr (pred, Some 0, ppc), s')"
proof -
  have pos: "(0::nat) < 300" by simp
  from completes_notebook [OF delivers_quiet_library]
  obtain v s where "notebook quiet_library ((), []) = (Inr v, s)" by (rule completesD)
  then obtain pred acc ppc where
    run: "notebook quiet_library ((), []) = (Inr (pred, acc, ppc), s)" by (cases v) auto
  have "delivers (with_test_labels flipped quiet_library)"
    by (rule delivers_with_test_labels [OF delivers_quiet_library]) (simp_all add: well_formed_flipped)
  from completes_notebook [OF this]
  obtain v' s' where "notebook (with_test_labels flipped quiet_library) ((), []) = (Inr v', s')"
    by (rule completesD)
  then obtain pred' acc' ppc' where
    run': "notebook (with_test_labels flipped quiet_library) ((), []) = (Inr (pred', acc', ppc'), s')"
    by (cases v') auto
  from predictions_do_not_depend_on_test_labels [OF run run']
  obtain X_test y_test approx s0 where
    eq: "pred' = pred" "ppc' = ppc"
    and u: "up_to_prediction quiet_library ((), []) = (Inr (X_test, y_test, pred, approx), s0)"
    and a: "accuracy y_test pred = Inr acc" "accuracy (flipped y_test) pred = Inr acc'"
    by blast
  from quiet_up_to_prediction [OF u] have
    y: "y_test = zeros [300]" and p: "predict example_approx (zeros [300, 2]) = Inr (pred, approx)"
    by simp_all
  have x: "shape (zeros [300, 2]) = [300, 2]" by simp
  from predict_value [OF x pos example_approx_shaped] p have sh: "shape pred = [300]" by auto
  have f: "data pred = replicate 300 False"
    by (rule zero_input_labels [OF example_approx_shaped pos p])
  from a zero_labels_accuracy [OF sh f pos] flipped_labels_accuracy [OF sh f pos]
  have "acc = Some 100" "acc' = Some 0" by (simp_all add: y)
  with run run' eq show ?thesis by blast
qed

end
